theory Spec2Isabelle
  imports Complex_Main "HOL-Library.Multiset"
begin

section \<open>Arrays\<close>

text \<open>
  The three scripts (\<^verbatim>\<open>allstars/visualize_animation.py\<close>,
  \<^verbatim>\<open>edge_on/visualize_edge_on.py\<close>, \<^verbatim>\<open>tilted_view/visualize_tilted.py\<close>) work on numpy
  arrays of floats. An N x 3 array is a list of rows, a row a triple. Coordinates are
  modelled as \<^typ>\<open>real\<close>: the arithmetic is exact, rounding of float64 is not
  modelled. A Python pair \<^verbatim>\<open>[lo, hi]\<close> of axis limits is a pair of reals.
\<close>

type_synonym vec3 = "real \<times> real \<times> real"
type_synonym vec2 = "real \<times> real"
type_synonym mat3 = "vec3 \<times> vec3 \<times> vec3"
type_synonym limits = "real \<times> real"

definition col0 :: "vec3 list \<Rightarrow> real list" where
  \<comment> \<open>\<^verbatim>\<open>a[:, 0]\<close>\<close>
  "col0 a = map (\<lambda>(x, y, z). x) a"

definition col1 :: "vec3 list \<Rightarrow> real list" where
  \<comment> \<open>\<^verbatim>\<open>a[:, 1]\<close>\<close>
  "col1 a = map (\<lambda>(x, y, z). y) a"

definition col2 :: "vec3 list \<Rightarrow> real list" where
  \<comment> \<open>\<^verbatim>\<open>a[:, 2]\<close>\<close>
  "col2 a = map (\<lambda>(x, y, z). z) a"

definition cols01 :: "vec3 list \<Rightarrow> vec2 list" where
  \<comment> \<open>\<^verbatim>\<open>a[:, :2]\<close>\<close>
  "cols01 a = map (\<lambda>(x, y, z). (x, y)) a"

definition cols02 :: "vec3 list \<Rightarrow> vec2 list" where
  \<comment> \<open>\<^verbatim>\<open>a[:, [0, 2]]\<close>\<close>
  "cols02 a = map (\<lambda>(x, y, z). (x, z)) a"

definition vstack :: "'a list list \<Rightarrow> 'a list" where
  \<comment> \<open>\<^verbatim>\<open>np.vstack([a, b])\<close>: the rows of \<open>a\<close>, then the rows of \<open>b\<close>\<close>
  "vstack arrays = concat arrays"

definition transpose3 :: "mat3 \<Rightarrow> mat3" where
  \<comment> \<open>\<^verbatim>\<open>M.T\<close> of a 3 x 3 matrix given by its rows\<close>
  "transpose3 M =
     (case M of ((a, b, c), (d, e, f), (g, h, i)) \<Rightarrow> ((a, d, g), (b, e, h), (c, f, i)))"

definition matmul :: "vec3 list \<Rightarrow> mat3 \<Rightarrow> vec3 list" where
  \<comment> \<open>\<^verbatim>\<open>pos @ M\<close>: every row of \<open>pos\<close> times the columns of \<open>M\<close>\<close>
  "matmul pos M =
     (case M of ((a, b, c), (d, e, f), (g, h, i)) \<Rightarrow>
        map (\<lambda>(x, y, z). (x * a + y * d + z * g, x * b + y * e + z * h, x * c + y * f + z * i)) pos)"

section \<open>The rotation of the tilted view\<close>

definition radians :: "real \<Rightarrow> real" where
  \<comment> \<open>\<^verbatim>\<open>np.radians\<close>\<close>
  "radians deg = deg * pi / 180"

definition Rx :: "real \<Rightarrow> mat3" where
  "Rx ax = ((1, 0, 0),
            (0, cos ax, - sin ax),
            (0, sin ax, cos ax))"

definition Rz :: "real \<Rightarrow> mat3" where
  "Rz az = ((cos az, - sin az, 0),
            (sin az, cos az, 0),
            (0, 0, 1))"

definition rotate_3d :: "vec3 list \<Rightarrow> real \<Rightarrow> real \<Rightarrow> vec3 list" where
  \<comment> \<open>\<^verbatim>\<open>rotated = pos @ Rx.T @ Rz.T\<close>, the product associating to the left\<close>
  "rotate_3d pos angle_x angle_z =
     (let ax = radians angle_x;
          az = radians angle_z
      in matmul (matmul pos (transpose3 (Rx ax))) (transpose3 (Rz az)))"

text \<open>
  The words of the specification, for comparison with \<^const>\<open>rotate_3d\<close>: the standard
  right-handed rotations of a column vector about the X axis and about the Z axis, the
  product of a 3 x 3 matrix with a column vector, the axis drop onto the columns 0 and 1,
  and the Euclidean distance of two points.
\<close>

definition spec_rot_x :: "real \<Rightarrow> vec3 \<Rightarrow> vec3" where
  "spec_rot_x t p = (case p of (x, y, z) \<Rightarrow> (x, y * cos t - z * sin t, y * sin t + z * cos t))"

definition spec_rot_z :: "real \<Rightarrow> vec3 \<Rightarrow> vec3" where
  "spec_rot_z t p = (case p of (x, y, z) \<Rightarrow> (x * cos t - y * sin t, x * sin t + y * cos t, z))"

definition mat_vec :: "mat3 \<Rightarrow> vec3 \<Rightarrow> vec3" where
  "mat_vec M p =
     (case M of ((a, b, c), (d, e, f), (g, h, i)) \<Rightarrow>
        (case p of (x, y, z) \<Rightarrow>
           (a * x + b * y + c * z, d * x + e * y + f * z, g * x + h * y + i * z)))"

definition spec_axis_drop01 :: "vec3 list \<Rightarrow> vec2 list" where
  "spec_axis_drop01 P = map (\<lambda>p. (fst p, fst (snd p))) P"

definition dist3 :: "vec3 \<Rightarrow> vec3 \<Rightarrow> real" where
  "dist3 p q =
     (case p of (x, y, z) \<Rightarrow>
        (case q of (u, v, w) \<Rightarrow> sqrt ((x - u)\<^sup>2 + (y - v)\<^sup>2 + (z - w)\<^sup>2)))"

section \<open>Snapshot files and the reader\<close>

text \<open>
  What \<^verbatim>\<open>load_snapshot\<close> reads of an HDF5 file: the attribute \<^verbatim>\<open>Time\<close> of the
  group \<^verbatim>\<open>Header\<close>, and the datasets it names of each of the groups
  \<^verbatim>\<open>PartType2\<close>, \<^verbatim>\<open>PartType3\<close> and \<^verbatim>\<open>PartType4\<close>. A group may be absent
  from the file, and a group that is there may lack a dataset; h5py raises
  \<^verbatim>\<open>KeyError\<close> on a name that is not there. The field \<open>Header_Time\<close> is
  \<open>None\<close> when the group \<^verbatim>\<open>Header\<close> or its attribute \<^verbatim>\<open>Time\<close> is missing.
\<close>

record part_group =
  Coordinates :: "vec3 list option"
  Masses :: "real list option"
  StellarFormationTime :: "real list option"

record h5file =
  Header_Time :: "real option"
  PartType2 :: "part_group option"
  PartType3 :: "part_group option"
  PartType4 :: "part_group option"

text \<open>
  \<open>KeyError\<close> is h5py's. \<open>PercentileOfEmpty\<close> stands for \<^verbatim>\<open>np.percentile\<close> on an
  empty list, which has no number to return: current numpy raises
  \<^verbatim>\<open>IndexError\<close> there, and the releases before 1.22 return \<^verbatim>\<open>nan\<close>, which \<^verbatim>\<open>set_xlim\<close> refuses
  with \<^verbatim>\<open>ValueError\<close> before anything is drawn. \<open>ValueError\<close> is matplotlib's, on
  a figure size that is not finite or is negative. The repository has no error class of
  its own.
\<close>

datatype error = KeyError | PercentileOfEmpty | ValueError

record snapshot =
  newstars_pos :: "vec3 list"
  newstars_mass :: "real list"
  newstars_time :: "real list"
  disk_pos :: "vec3 list"
  bulge_pos :: "vec3 list"
  time :: real

definition dataset :: "'a option \<Rightarrow> error + 'a" where
  \<comment> \<open>\<^verbatim>\<open>f['PartTypeK/Name'][:]\<close>\<close>
  "dataset d = (case d of None \<Rightarrow> Inl KeyError | Some v \<Rightarrow> Inr v)"

definition load_newstars :: "h5file \<Rightarrow> error + vec3 list \<times> real list \<times> real list" where
  \<comment> \<open>\<^verbatim>\<open>if 'PartType4' in f: ... else: ...\<close> of \<^verbatim>\<open>load_snapshot\<close>\<close>
  "load_newstars f =
     (case PartType4 f of
        Some g \<Rightarrow>
          (case dataset (Coordinates g) of Inl e \<Rightarrow> Inl e | Inr pos \<Rightarrow>
           case dataset (Masses g) of Inl e \<Rightarrow> Inl e | Inr mass \<Rightarrow>
           case dataset (StellarFormationTime g) of Inl e \<Rightarrow> Inl e | Inr sft \<Rightarrow>
             Inr (pos, mass, sft))
      | None \<Rightarrow> Inr ([], [], []))"

definition load_positions :: "part_group option \<Rightarrow> error + vec3 list" where
  \<comment> \<open>\<^verbatim>\<open>if 'PartTypeK' in f: f['PartTypeK/Coordinates'][:] else: np.array([]).reshape(0, 3)\<close>\<close>
  "load_positions grp =
     (case grp of
        Some g \<Rightarrow> dataset (Coordinates g)
      | None \<Rightarrow> Inr [])"

definition load_snapshot :: "h5file \<Rightarrow> error + snapshot" where
  "load_snapshot f =
     (case dataset (Header_Time f) of Inl e \<Rightarrow> Inl e | Inr t \<Rightarrow>
      case load_newstars f of Inl e \<Rightarrow> Inl e | Inr (pos, mass, sft) \<Rightarrow>
      case load_positions (PartType2 f) of Inl e \<Rightarrow> Inl e | Inr disk \<Rightarrow>
      case load_positions (PartType3 f) of Inl e \<Rightarrow> Inl e | Inr bulge \<Rightarrow>
        Inr \<lparr>newstars_pos = pos, newstars_mass = mass, newstars_time = sft,
             disk_pos = disk, bulge_pos = bulge, time = t\<rparr>)"

fun load_all :: "h5file list \<Rightarrow> error + snapshot list" where
  \<comment> \<open>\<^verbatim>\<open>for sfile in snapshot_files: snapshots.append(load_snapshot(sfile))\<close>\<close>
  "load_all [] = Inr []"
| "load_all (sfile # rest) =
     (case load_snapshot sfile of Inl e \<Rightarrow> Inl e | Inr snap \<Rightarrow>
      case load_all rest of Inl e \<Rightarrow> Inl e | Inr snapshots \<Rightarrow> Inr (snap # snapshots))"

section \<open>Percentiles and padding\<close>

definition percentile :: "real list \<Rightarrow> real \<Rightarrow> error + real" where
  \<comment> \<open>\<^verbatim>\<open>np.percentile(a, q)\<close>, numpy's default linear interpolation between the two
      neighbours of position \<open>(n - 1) * q / 100\<close> of the sorted data\<close>
  "percentile a q =
     (if a = [] then Inl PercentileOfEmpty
      else
        let s = sort a;
            n = length s;
            h = real (n - 1) * (q / 100);
            lo = nat \<lfloor>h\<rfloor>;
            hi = min (lo + 1) (n - 1)
        in Inr (s ! lo + (h - real lo) * (s ! hi - s ! lo)))"

definition percentile_limits :: "real list \<Rightarrow> error + limits" where
  \<comment> \<open>\<^verbatim>\<open>[np.percentile(a, 1), np.percentile(a, 99)]\<close>\<close>
  "percentile_limits a =
     (case percentile a 1 of Inl e \<Rightarrow> Inl e | Inr p1 \<Rightarrow>
      case percentile a 99 of Inl e \<Rightarrow> Inl e | Inr p99 \<Rightarrow> Inr (p1, p99))"

definition pad :: "limits \<Rightarrow> limits" where
  \<comment> \<open>\<^verbatim>\<open>r = lim[1] - lim[0]; lim = [lim[0] - 0.1*r, lim[1] + 0.1*r]\<close>\<close>
  "pad lims = (let r = snd lims - fst lims in (fst lims - 0.1 * r, snd lims + 0.1 * r))"

section \<open>Frames\<close>

text \<open>
  What one drawn frame holds: the offsets of the two scatter plots and the two numbers
  of the text overlays. A static frame is a figure of its own and carries its axis limits;
  an animation has one figure, whose limits are set once, and one frame for each index
  of the list of snapshots. Colours, marker sizes, the text formats and the encoding of
  the video (with its fallback to another writer) are the plotting library's and are not
  modelled. The size of the figure is a constant in the face-on and in the tilted view;
  the edge-on view computes it from the window, and the failure of the plotting library
  on a size that is not a finite number is part of the model.
\<close>

record frame =
  old_offsets :: "vec2 list"
  new_offsets :: "vec2 list"
  time_text :: real
  count_text :: nat

record figure =
  fig_xlim :: limits
  fig_ylim :: limits
  fig_frame :: frame

datatype run = NoSnapshotsFound | Animation limits limits "frame list"

section \<open>Face-on view (allstars)\<close>

definition extend_xy :: "real list \<times> real list \<Rightarrow> snapshot \<Rightarrow> real list \<times> real list" where
  \<comment> \<open>the body of the loop over the snapshots that fills \<^verbatim>\<open>all_x\<close> and \<^verbatim>\<open>all_y\<close>\<close>
  "extend_xy acc snap =
     (let (all_x, all_y) = acc;
          (all_x, all_y) =
            (if length (newstars_pos snap) > 0
             then (all_x @ col0 (newstars_pos snap), all_y @ col1 (newstars_pos snap))
             else (all_x, all_y));
          (all_x, all_y) = (all_x @ col0 (disk_pos snap), all_y @ col1 (disk_pos snap));
          (all_x, all_y) = (all_x @ col0 (bulge_pos snap), all_y @ col1 (bulge_pos snap))
      in (all_x, all_y))"

definition view_limits :: "snapshot list \<Rightarrow> error + limits \<times> limits" where
  \<comment> \<open>the limits of both axes, as \<^verbatim>\<open>create_animation\<close> (lines 67 to 86) and
      \<^verbatim>\<open>create_static_frames\<close> (lines 175 to 191) compute them: the percentiles of the
      pooled coordinates, then the padding\<close>
  "view_limits snapshots =
     (let (all_x, all_y) = foldl extend_xy ([], []) snapshots
      in case percentile_limits all_x of Inl e \<Rightarrow> Inl e | Inr xlim \<Rightarrow>
         case percentile_limits all_y of Inl e \<Rightarrow> Inl e | Inr ylim \<Rightarrow>
           Inr (pad xlim, pad ylim))"

definition draw :: "snapshot \<Rightarrow> frame" where
  \<comment> \<open>what \<^verbatim>\<open>animate\<close> and the loop of \<^verbatim>\<open>create_static_frames\<close> draw of one snapshot\<close>
  "draw snap =
     \<lparr>old_offsets = vstack [cols01 (disk_pos snap), cols01 (bulge_pos snap)],
      new_offsets = (if length (newstars_pos snap) > 0 then cols01 (newstars_pos snap) else []),
      time_text = time snap,
      count_text = length (newstars_pos snap)\<rparr>"

definition animate :: "snapshot list \<Rightarrow> nat \<Rightarrow> frame" where
  \<comment> \<open>\<^verbatim>\<open>snap = snapshots[frame]\<close>; the animation calls it for the indices below the
      length of the list only\<close>
  "animate snapshots i = draw (snapshots ! i)"

definition create_animation :: "h5file list \<Rightarrow> error + run" where
  "create_animation snapshot_files =
     (if snapshot_files = [] then Inr NoSnapshotsFound
      else
        case load_all snapshot_files of Inl e \<Rightarrow> Inl e | Inr snapshots \<Rightarrow>
        case view_limits snapshots of Inl e \<Rightarrow> Inl e | Inr (xlim, ylim) \<Rightarrow>
          Inr (Animation xlim ylim (map (animate snapshots) [0 ..< length snapshots])))"

definition create_static_frames :: "h5file list \<Rightarrow> error + figure list" where
  "create_static_frames snapshot_files =
     (case load_all snapshot_files of Inl e \<Rightarrow> Inl e | Inr snapshots \<Rightarrow>
      case view_limits snapshots of Inl e \<Rightarrow> Inl e | Inr (xlim, ylim) \<Rightarrow>
        Inr (map (\<lambda>snap. \<lparr>fig_xlim = xlim, fig_ylim = ylim, fig_frame = draw snap\<rparr>)
               snapshots))"

datatype outcome = Exit1 | Raised error | Finished "figure list" "error + run"

definition main :: "bool \<Rightarrow> h5file list \<Rightarrow> outcome" where
  \<comment> \<open>the script: the static frames first, outside any \<^verbatim>\<open>try\<close>; the animation after
      them, inside one that reports the exception and goes on\<close>
  "main output_exists snapshot_files =
     (if \<not> output_exists then Exit1
      else
        case create_static_frames snapshot_files of
          Inl e \<Rightarrow> Raised e
        | Inr figures \<Rightarrow> Finished figures (create_animation snapshot_files))"

section \<open>Edge-on view\<close>

definition extend_xz :: "real list \<times> real list \<Rightarrow> snapshot \<Rightarrow> real list \<times> real list" where
  "extend_xz acc snap =
     (let (all_x, all_z) = acc;
          (all_x, all_z) =
            (if length (newstars_pos snap) > 0
             then (all_x @ col0 (newstars_pos snap), all_z @ col2 (newstars_pos snap))
             else (all_x, all_z));
          (all_x, all_z) = (all_x @ col0 (disk_pos snap), all_z @ col2 (disk_pos snap));
          (all_x, all_z) = (all_x @ col0 (bulge_pos snap), all_z @ col2 (bulge_pos snap))
      in (all_x, all_z))"

definition edge_on_view_limits :: "snapshot list \<Rightarrow> error + limits \<times> limits" where
  \<comment> \<open>lines 67 to 90 of \<^verbatim>\<open>create_animation\<close> and 195 to 214 of
      \<^verbatim>\<open>create_static_frames\<close>: the percentiles of both axes are computed; only those of
      X are kept and padded, and the limits of Z are a third of the padded width of X on
      each side of zero\<close>
  "edge_on_view_limits snapshots =
     (let (all_x, all_z) = foldl extend_xz ([], []) snapshots
      in case percentile_limits all_x of Inl e \<Rightarrow> Inl e | Inr xlim \<Rightarrow>
         case percentile_limits all_z of Inl e \<Rightarrow> Inl e | Inr zlim \<Rightarrow>
           (let xlim = pad xlim;
                z_max = (snd xlim - fst xlim) / 3.0;
                zlim = (- z_max, z_max)
            in Inr (xlim, zlim)))"

definition edge_on_draw :: "snapshot \<Rightarrow> frame" where
  "edge_on_draw snap =
     \<lparr>old_offsets = cols02 (vstack [disk_pos snap, bulge_pos snap]),
      new_offsets = (if length (newstars_pos snap) > 0 then cols02 (newstars_pos snap) else []),
      time_text = time snap,
      count_text = length (newstars_pos snap)\<rparr>"

definition edge_on_animate :: "snapshot list \<Rightarrow> nat \<Rightarrow> frame" where
  "edge_on_animate snapshots i = edge_on_draw (snapshots ! i)"

definition true_divide :: "real \<Rightarrow> real \<Rightarrow> real option" where
  \<comment> \<open>\<^verbatim>\<open>a / b\<close> on numpy floats: a division by zero raises nothing and gives
      \<^verbatim>\<open>nan\<close> or an infinity, which is \<open>None\<close> here\<close>
  "true_divide a b = (if b = 0 then None else Some (a / b))"

definition edge_on_figsize :: "limits \<Rightarrow> limits \<Rightarrow> (real \<times> real) option" where
  \<comment> \<open>lines 94 to 99 of \<^verbatim>\<open>create_animation\<close> and 216 to 221 of
      \<^verbatim>\<open>create_static_frames\<close>; \<open>None\<close> when the width is not a finite number\<close>
  "edge_on_figsize xlim zlim =
     (let x_range = snd xlim - fst xlim;
          z_range = snd zlim - fst zlim;
          fig_height = 8
      in case true_divide x_range z_range of
           None \<Rightarrow> None
         | Some aspect_ratio \<Rightarrow>
             (let fig_width = fig_height * aspect_ratio in Some (fig_width, fig_height)))"

definition subplots :: "(real \<times> real) option \<Rightarrow> error + unit" where
  \<comment> \<open>\<^verbatim>\<open>plt.subplots(figsize=(fig_width, fig_height), ...)\<close>: matplotlib raises
      \<^verbatim>\<open>ValueError\<close> unless both sizes are finite and not negative\<close>
  "subplots figsize =
     (case figsize of
        None \<Rightarrow> Inl ValueError
      | Some (w, h) \<Rightarrow> if w < 0 \<or> h < 0 then Inl ValueError else Inr ())"

definition edge_on_create_animation :: "h5file list \<Rightarrow> error + run" where
  "edge_on_create_animation snapshot_files =
     (if snapshot_files = [] then Inr NoSnapshotsFound
      else
        case load_all snapshot_files of Inl e \<Rightarrow> Inl e | Inr snapshots \<Rightarrow>
        case edge_on_view_limits snapshots of Inl e \<Rightarrow> Inl e | Inr (xlim, zlim) \<Rightarrow>
        case subplots (edge_on_figsize xlim zlim) of Inl e \<Rightarrow> Inl e | Inr fig \<Rightarrow>
          Inr (Animation xlim zlim (map (edge_on_animate snapshots) [0 ..< length snapshots])))"

fun edge_on_save_frames ::
  "(real \<times> real) option \<Rightarrow> limits \<Rightarrow> limits \<Rightarrow> snapshot list \<Rightarrow> error + figure list" where
  \<comment> \<open>the loop of \<^verbatim>\<open>create_static_frames\<close>, which makes a new figure for every snapshot\<close>
  "edge_on_save_frames figsize xlim zlim [] = Inr []"
| "edge_on_save_frames figsize xlim zlim (snap # rest) =
     (case subplots figsize of Inl e \<Rightarrow> Inl e | Inr fig \<Rightarrow>
      case edge_on_save_frames figsize xlim zlim rest of Inl e \<Rightarrow> Inl e | Inr figures \<Rightarrow>
        Inr (\<lparr>fig_xlim = xlim, fig_ylim = zlim, fig_frame = edge_on_draw snap\<rparr> # figures))"

definition edge_on_create_static_frames :: "h5file list \<Rightarrow> error + figure list" where
  "edge_on_create_static_frames snapshot_files =
     (case load_all snapshot_files of Inl e \<Rightarrow> Inl e | Inr snapshots \<Rightarrow>
      case edge_on_view_limits snapshots of Inl e \<Rightarrow> Inl e | Inr (xlim, zlim) \<Rightarrow>
        edge_on_save_frames (edge_on_figsize xlim zlim) xlim zlim snapshots)"

section \<open>Tilted view\<close>

definition tilted_extend_xy ::
  "real \<Rightarrow> real \<Rightarrow> real list \<times> real list \<Rightarrow> snapshot \<Rightarrow> real list \<times> real list" where
  "tilted_extend_xy angle_x angle_z acc snap =
     (let (all_x, all_y) = acc;
          all_pos = vstack [disk_pos snap, bulge_pos snap];
          all_pos = (if length (newstars_pos snap) > 0
                     then vstack [all_pos, newstars_pos snap] else all_pos);
          rotated = rotate_3d all_pos angle_x angle_z
      in (all_x @ col0 rotated, all_y @ col1 rotated))"

definition tilted_view_limits :: "real \<Rightarrow> real \<Rightarrow> snapshot list \<Rightarrow> error + limits \<times> limits" where
  \<comment> \<open>lines 97 to 117 of \<^verbatim>\<open>create_animation\<close> and 216 to 232 of
      \<^verbatim>\<open>create_static_frames\<close>: both axes are percentiles of the rotated coordinates, padded\<close>
  "tilted_view_limits angle_x angle_z snapshots =
     (let (all_x, all_y) = foldl (tilted_extend_xy angle_x angle_z) ([], []) snapshots
      in case percentile_limits all_x of Inl e \<Rightarrow> Inl e | Inr xlim \<Rightarrow>
         case percentile_limits all_y of Inl e \<Rightarrow> Inl e | Inr ylim \<Rightarrow>
           Inr (pad xlim, pad ylim))"

definition tilted_draw :: "real \<Rightarrow> real \<Rightarrow> snapshot \<Rightarrow> frame" where
  "tilted_draw angle_x angle_z snap =
     (let old_pos = vstack [disk_pos snap, bulge_pos snap];
          old_rotated = rotate_3d old_pos angle_x angle_z
      in \<lparr>old_offsets = cols01 old_rotated,
          new_offsets =
            (if length (newstars_pos snap) > 0
             then cols01 (rotate_3d (newstars_pos snap) angle_x angle_z) else []),
          time_text = time snap,
          count_text = length (newstars_pos snap)\<rparr>)"

definition tilted_animate :: "real \<Rightarrow> real \<Rightarrow> snapshot list \<Rightarrow> nat \<Rightarrow> frame" where
  "tilted_animate angle_x angle_z snapshots i = tilted_draw angle_x angle_z (snapshots ! i)"

definition tilted_create_animation :: "h5file list \<Rightarrow> real \<Rightarrow> real \<Rightarrow> error + run" where
  "tilted_create_animation snapshot_files angle_x angle_z =
     (if snapshot_files = [] then Inr NoSnapshotsFound
      else
        case load_all snapshot_files of Inl e \<Rightarrow> Inl e | Inr snapshots \<Rightarrow>
        case tilted_view_limits angle_x angle_z snapshots of Inl e \<Rightarrow> Inl e
        | Inr (xlim, ylim) \<Rightarrow>
            Inr (Animation xlim ylim
                   (map (tilted_animate angle_x angle_z snapshots) [0 ..< length snapshots])))"

definition tilted_create_static_frames ::
  "h5file list \<Rightarrow> real \<Rightarrow> real \<Rightarrow> error + figure list" where
  "tilted_create_static_frames snapshot_files angle_x angle_z =
     (case load_all snapshot_files of Inl e \<Rightarrow> Inl e | Inr snapshots \<Rightarrow>
      case tilted_view_limits angle_x angle_z snapshots of Inl e \<Rightarrow> Inl e
      | Inr (xlim, ylim) \<Rightarrow>
          Inr (map (\<lambda>snap. \<lparr>fig_xlim = xlim, fig_ylim = ylim,
                             fig_frame = tilted_draw angle_x angle_z snap\<rparr>) snapshots))"

section \<open>Conditions on the input and definitions for comparison\<close>

definition group_complete :: "part_group option \<Rightarrow> bool" where
  \<comment> \<open>a group that is in the file holds the dataset \<^verbatim>\<open>Coordinates\<close>\<close>
  "group_complete grp = (case grp of None \<Rightarrow> True | Some g \<Rightarrow> Coordinates g \<noteq> None)"

definition groups_complete :: "h5file \<Rightarrow> bool" where
  \<comment> \<open>every group that is in the file holds the datasets the reader asks it for\<close>
  "groups_complete f =
     (group_complete (PartType2 f) \<and> group_complete (PartType3 f) \<and>
      (case PartType4 f of
         None \<Rightarrow> True
       | Some g \<Rightarrow> Coordinates g \<noteq> None \<and> Masses g \<noteq> None \<and> StellarFormationTime g \<noteq> None))"

definition newstars_parallel_in_file :: "h5file \<Rightarrow> bool" where
  \<comment> \<open>the three datasets of \<^verbatim>\<open>PartType4\<close>, where the file has them, are equally long\<close>
  "newstars_parallel_in_file f =
     (case PartType4 f of
        None \<Rightarrow> True
      | Some g \<Rightarrow>
          (case (Coordinates g, Masses g, StellarFormationTime g) of
             (Some pos, Some mass, Some sft) \<Rightarrow>
               length pos = length mass \<and> length pos = length sft
           | _ \<Rightarrow> True))"

definition no_particles :: "snapshot \<Rightarrow> bool" where
  "no_particles snap = (newstars_pos snap = [] \<and> disk_pos snap = [] \<and> bulge_pos snap = [])"

definition change_z :: "(real \<Rightarrow> real) \<Rightarrow> snapshot \<Rightarrow> snapshot" where
  \<comment> \<open>the same snapshot with every z coordinate replaced by its image under \<open>g\<close>\<close>
  "change_z g snap =
     snap\<lparr>newstars_pos := map (\<lambda>(x, y, z). (x, y, g z)) (newstars_pos snap),
          disk_pos := map (\<lambda>(x, y, z). (x, y, g z)) (disk_pos snap),
          bulge_pos := map (\<lambda>(x, y, z). (x, y, g z)) (bulge_pos snap)\<rparr>"

text \<open>
  The pool of one coordinate over the whole sequence, all classes of every frame: of the
  positions as they are (\<open>pooled\<close>), and of the rotated positions of the tilted view
  (\<open>tilted_pooled\<close>). A pair of limits is the padded percentile window of a pool when it
  is the interval from the 1st to the 99th percentile of the pool, widened at each end by
  a tenth of its width, and so contains that interval.
\<close>

definition pooled :: "(vec3 list \<Rightarrow> real list) \<Rightarrow> snapshot list \<Rightarrow> real list" where
  "pooled col snapshots =
     concat (map (\<lambda>snap. col (newstars_pos snap) @ col (disk_pos snap) @ col (bulge_pos snap))
               snapshots)"

definition tilted_pooled ::
  "(vec3 list \<Rightarrow> real list) \<Rightarrow> real \<Rightarrow> real \<Rightarrow> snapshot list \<Rightarrow> real list" where
  "tilted_pooled col angle_x angle_z snapshots =
     concat (map (\<lambda>snap. col (rotate_3d (disk_pos snap @ bulge_pos snap @ newstars_pos snap)
                                  angle_x angle_z))
               snapshots)"

definition is_padded_percentile_window :: "real list \<Rightarrow> limits \<Rightarrow> bool" where
  "is_padded_percentile_window a lims =
     (case percentile_limits a of
        Inl e \<Rightarrow> False
      | Inr (p1, p99) \<Rightarrow>
          lims = (p1 - 0.1 * (p99 - p1), p99 + 0.1 * (p99 - p1)) \<and>
          fst lims \<le> p1 \<and> p99 \<le> snd lims)"

text \<open>
  The pooled coordinates in the words of the specification, with the frames that have no
  newly formed star left out of the pool of the newly formed stars: the new stars of the
  frames that have some, then the disk and bulge stars of every frame.
\<close>

definition spec_pool_omitting :: "(vec3 list \<Rightarrow> real list) \<Rightarrow> snapshot list \<Rightarrow> real list" where
  "spec_pool_omitting col snapshots =
     concat (map (\<lambda>snap. col (newstars_pos snap))
               (filter (\<lambda>snap. newstars_pos snap \<noteq> []) snapshots))
     @ concat (map (\<lambda>snap. col (disk_pos snap) @ col (bulge_pos snap)) snapshots)"

definition spec_view_limits_omitting :: "snapshot list \<Rightarrow> error + limits \<times> limits" where
  "spec_view_limits_omitting snapshots =
     (case percentile_limits (spec_pool_omitting col0 snapshots) of Inl e \<Rightarrow> Inl e
      | Inr xlim \<Rightarrow>
     (case percentile_limits (spec_pool_omitting col1 snapshots) of Inl e \<Rightarrow> Inl e
      | Inr ylim \<Rightarrow> Inr (pad xlim, pad ylim)))"

section \<open>Example inputs\<close>

text \<open>
  The scenario of the specification: a file, and the snapshot read from it, at the time
  \<open>t\<close> with the two disk positions (1, 0, 0) and (-1, 0, 0) and no other particle; and
  a file that holds a single disk particle, at (1, 2, 3).
\<close>

definition scenario_file :: "real \<Rightarrow> h5file" where
  "scenario_file t =
     \<lparr>Header_Time = Some t,
      PartType2 = Some \<lparr>Coordinates = Some [(1, 0, 0), (- 1, 0, 0)], Masses = None,
                         StellarFormationTime = None\<rparr>,
      PartType3 = None, PartType4 = None\<rparr>"

definition scenario_snapshot :: "real \<Rightarrow> snapshot" where
  "scenario_snapshot t =
     \<lparr>newstars_pos = [], newstars_mass = [], newstars_time = [],
      disk_pos = [(1, 0, 0), (- 1, 0, 0)], bulge_pos = [], time = t\<rparr>"

definition single_particle_file :: h5file where
  "single_particle_file =
     \<lparr>Header_Time = Some 0,
      PartType2 = Some \<lparr>Coordinates = Some [(1, 2, 3)], Masses = None,
                         StellarFormationTime = None\<rparr>,
      PartType3 = None, PartType4 = None\<rparr>"

definition single_particle_snapshot :: snapshot where
  "single_particle_snapshot =
     \<lparr>newstars_pos = [], newstars_mass = [], newstars_time = [],
      disk_pos = [(1, 2, 3)], bulge_pos = [], time = 0\<rparr>"

section \<open>Evaluation on concrete inputs\<close>

lemmas load_eval = load_snapshot_def load_newstars_def load_positions_def dataset_def

lemmas example_eval =
  scenario_file_def scenario_snapshot_def single_particle_file_def single_particle_snapshot_def

lemmas window_eval =
  percentile_limits_def percentile_def pad_def col0_def col1_def col2_def Let_def

section \<open>Properties of the rotation\<close>

lemma matmul_transpose3:
  "matmul pos (transpose3 M) = map (mat_vec M) pos"
  by (cases M) (auto simp add: matmul_def transpose3_def mat_vec_def split_def algebra_simps)

lemma mat_vec_Rx: "mat_vec (Rx t) p = spec_rot_x t p"
  by (cases p) (simp add: mat_vec_def Rx_def spec_rot_x_def algebra_simps)

lemma mat_vec_Rz: "mat_vec (Rz t) p = spec_rot_z t p"
  by (cases p) (simp add: mat_vec_def Rz_def spec_rot_z_def algebra_simps)

lemma rotate_3d_mat_vec:
  "rotate_3d pos angle_x angle_z =
     map (\<lambda>p. mat_vec (Rz (radians angle_z)) (mat_vec (Rx (radians angle_x)) p)) pos"
  by (simp add: rotate_3d_def Let_def matmul_transpose3)

lemma rotate_3d_rows:
  "rotate_3d pos angle_x angle_z =
     map (\<lambda>p. spec_rot_z (radians angle_z) (spec_rot_x (radians angle_x) p)) pos"
  by (simp add: rotate_3d_mat_vec mat_vec_Rx mat_vec_Rz)

lemma cols01_axis_drop: "cols01 a = spec_axis_drop01 a"
  by (simp add: cols01_def spec_axis_drop01_def split_def)

text \<open>
  C4. \<^const>\<open>rotate_3d\<close> turns every row about the X axis first and about the Z axis
  second: the row \<open>p\<close> goes to \<open>Rz (Rx p)\<close> on column vectors, the two matrices being
  the standard right-handed rotations by the angles in radians; and the offsets that the
  tilted view draws, of the old stars and of the new stars, are the columns 0 and 1 of the
  rotated rows.
\<close>

theorem rotate_3d_x_before_z:
  "rotate_3d pos angle_x angle_z =
     map (\<lambda>p. mat_vec (Rz (radians angle_z)) (mat_vec (Rx (radians angle_x)) p)) pos
   \<and> rotate_3d pos angle_x angle_z =
     map (\<lambda>p. spec_rot_z (radians angle_z) (spec_rot_x (radians angle_x) p)) pos
   \<and> old_offsets (tilted_draw angle_x angle_z snap) =
     spec_axis_drop01
       (map (\<lambda>p. spec_rot_z (radians angle_z) (spec_rot_x (radians angle_x) p))
          (disk_pos snap @ bulge_pos snap))
   \<and> new_offsets (tilted_draw angle_x angle_z snap) =
     spec_axis_drop01
       (map (\<lambda>p. spec_rot_z (radians angle_z) (spec_rot_x (radians angle_x) p))
          (newstars_pos snap))"
proof -
  have "new_offsets (tilted_draw angle_x angle_z snap) =
          cols01 (rotate_3d (newstars_pos snap) angle_x angle_z)"
    by (cases "newstars_pos snap") (simp_all add: tilted_draw_def Let_def cols01_def rotate_3d_rows)
  moreover have "old_offsets (tilted_draw angle_x angle_z snap) =
          cols01 (rotate_3d (disk_pos snap @ bulge_pos snap) angle_x angle_z)"
    by (simp add: tilted_draw_def Let_def vstack_def)
  ultimately show ?thesis
    by (simp add: cols01_axis_drop rotate_3d_mat_vec mat_vec_Rx mat_vec_Rz)
qed

lemma spec_rot_x_0: "spec_rot_x 0 p = p"
  by (cases p) (simp add: spec_rot_x_def)

lemma spec_rot_z_0: "spec_rot_z 0 p = p"
  by (cases p) (simp add: spec_rot_z_def)

lemma rotate_3d_0: "rotate_3d P 0 0 = P"
  by (simp add: rotate_3d_rows radians_def spec_rot_x_0 spec_rot_z_0)

text \<open>
  C6. With both angles zero \<^const>\<open>rotate_3d\<close> changes no row, so the first two columns
  of its result are the columns x and y of the input, the axis drop onto the columns 0
  and 1; the tilted view then draws what the face-on view draws.
\<close>

theorem rotate_3d_zero_angles:
  "rotate_3d P 0 0 = P
   \<and> cols01 (rotate_3d P 0 0) = spec_axis_drop01 P
   \<and> cols01 (rotate_3d P 0 0) = zip (col0 P) (col1 P)
   \<and> tilted_draw 0 0 snap = draw snap"
proof -
  have "zip (col0 P) (col1 P) = cols01 P"
    by (induction P) (auto simp add: col0_def col1_def cols01_def)
  then show ?thesis
    by (simp add: rotate_3d_0 cols01_axis_drop tilted_draw_def draw_def Let_def vstack_def
        spec_axis_drop01_def)
qed

lemma rot2_sq:
  fixes c s y z :: real
  assumes "s\<^sup>2 + c\<^sup>2 = 1"
  shows "(y * c - z * s)\<^sup>2 + (y * s + z * c)\<^sup>2 = y\<^sup>2 + z\<^sup>2"
proof -
  have "(y * c - z * s)\<^sup>2 + (y * s + z * c)\<^sup>2 = (y\<^sup>2 + z\<^sup>2) * (s\<^sup>2 + c\<^sup>2)"
    by (simp add: power2_eq_square algebra_simps)
  then show ?thesis using assms by simp
qed

lemma dist3_spec_rot_x: "dist3 (spec_rot_x t p) (spec_rot_x t q) = dist3 p q"
proof -
  obtain x y z where p: "p = (x, y, z)" by (cases p)
  obtain u v w where q: "q = (u, v, w)" by (cases q)
  have e: "(y * cos t - z * sin t - (v * cos t - w * sin t))\<^sup>2
         + (y * sin t + z * cos t - (v * sin t + w * cos t))\<^sup>2
         = ((y - v) * cos t - (z - w) * sin t)\<^sup>2 + ((y - v) * sin t + (z - w) * cos t)\<^sup>2"
    by (simp add: algebra_simps)
  have "(y * cos t - z * sin t - (v * cos t - w * sin t))\<^sup>2
         + (y * sin t + z * cos t - (v * sin t + w * cos t))\<^sup>2 = (y - v)\<^sup>2 + (z - w)\<^sup>2"
    unfolding e by (rule rot2_sq) simp
  then show ?thesis
    by (simp add: p q dist3_def spec_rot_x_def add.assoc)
qed

lemma dist3_spec_rot_z: "dist3 (spec_rot_z t p) (spec_rot_z t q) = dist3 p q"
proof -
  obtain x y z where p: "p = (x, y, z)" by (cases p)
  obtain u v w where q: "q = (u, v, w)" by (cases q)
  have e: "(x * cos t - y * sin t - (u * cos t - v * sin t))\<^sup>2
         + (x * sin t + y * cos t - (u * sin t + v * cos t))\<^sup>2
         = ((x - u) * cos t - (y - v) * sin t)\<^sup>2 + ((x - u) * sin t + (y - v) * cos t)\<^sup>2"
    by (simp add: algebra_simps)
  have "(x * cos t - y * sin t - (u * cos t - v * sin t))\<^sup>2
         + (x * sin t + y * cos t - (u * sin t + v * cos t))\<^sup>2 = (x - u)\<^sup>2 + (y - v)\<^sup>2"
    unfolding e by (rule rot2_sq) simp
  then show ?thesis
    by (simp add: p q dist3_def spec_rot_z_def)
qed

text \<open>
  C7. The rotation keeps the number of rows and the Euclidean distance of every two rows:
  the rows \<open>i\<close> and \<open>j\<close> of the rotated array are as far apart as the rows \<open>i\<close> and
  \<open>j\<close> of the input, for any two angles.
\<close>

theorem rotate_3d_preserves_distances:
  assumes "i < length pos" and "j < length pos"
  shows "length (rotate_3d pos angle_x angle_z) = length pos
         \<and> dist3 (rotate_3d pos angle_x angle_z ! i) (rotate_3d pos angle_x angle_z ! j)
             = dist3 (pos ! i) (pos ! j)"
  using assms by (simp add: rotate_3d_rows dist3_spec_rot_x dist3_spec_rot_z)

theorem rotate_3d_preserves_distances_witness:
  "dist3 (rotate_3d [(1, 0, 0), (0, 2, 0), (0, 0, 3)] 30 20 ! 0)
         (rotate_3d [(1, 0, 0), (0, 2, 0), (0, 0, 3)] 30 20 ! 2)
     = dist3 (1, 0, 0) (0, 0, 3)"
  using rotate_3d_preserves_distances [of 0 "[(1, 0, 0), (0, 2, 0), (0, 0, 3)]" 2 30 20]
  by simp

section \<open>Properties of the reader\<close>

lemma load_snapshot_no_time: "Header_Time f = None \<Longrightarrow> load_snapshot f = Inl KeyError"
  by (simp add: load_snapshot_def dataset_def)

lemma load_snapshot_error: "load_snapshot f = Inl e \<Longrightarrow> e = KeyError"
  by (auto simp add: load_snapshot_def load_newstars_def load_positions_def dataset_def
      split: sum.splits option.splits prod.splits)

lemma load_all_error: "load_all files = Inl e \<Longrightarrow> e = KeyError"
  by (induction files arbitrary: e) (auto split: sum.splits dest: load_snapshot_error)

lemma load_all_no_time:
  "f \<in> set files \<Longrightarrow> Header_Time f = None \<Longrightarrow> load_all files = Inl KeyError"
  by (induction files) (auto split: sum.splits simp: load_snapshot_no_time dest: load_all_error load_snapshot_error)

lemma load_snapshot_complete:
  "Header_Time f = Some t \<Longrightarrow> groups_complete f \<Longrightarrow>
   \<exists>snap. load_snapshot f = Inr snap \<and> time snap = t"
  by (auto simp add: load_snapshot_def load_newstars_def load_positions_def dataset_def
      groups_complete_def group_complete_def split: sum.splits option.splits prod.splits)

text \<open>
  C9, as the code has it. A file without the time attribute makes
  \<^const>\<open>load_snapshot\<close> fail (with h5py's \<open>KeyError\<close>), and the failure ends the run: the list of snapshots
  is loaded before anything is drawn, so a list of files that holds such a file yields no
  figure and no animation, and the script stops on the exception. A file that has the time
  attribute, and whose groups hold the datasets the reader asks for, yields a snapshot
  that carries that time.
\<close>

theorem load_snapshot_time_attribute:
  "(Header_Time f = None \<longrightarrow>
      load_snapshot f = Inl KeyError \<and>
      (f \<in> set files \<longrightarrow>
         load_all files = Inl KeyError \<and>
         create_static_frames files = Inl KeyError \<and>
         create_animation files = Inl KeyError \<and>
         main True files = Raised KeyError))
   \<and> (Header_Time f = Some t \<and> groups_complete f \<longrightarrow>
        (\<exists>snap. load_snapshot f = Inr snap \<and> time snap = t))"
proof -
  have run: "create_static_frames files = Inl KeyError \<and>
         create_animation files = Inl KeyError \<and>
         main True files = Raised KeyError"
    if "Header_Time f = None" and "f \<in> set files"
  proof -
    have "load_all files = Inl KeyError"
      using that by (simp add: load_all_no_time)
    moreover have "files \<noteq> []"
      using that by auto
    ultimately show ?thesis
      by (simp add: create_static_frames_def create_animation_def main_def)
  qed
  show ?thesis
    using run load_snapshot_no_time [of f] load_all_no_time [of f files]
      load_snapshot_complete [of f t]
    by blast
qed

theorem load_snapshot_time_attribute_witness:
  "load_snapshot
     \<lparr>Header_Time = None,
      PartType2 = Some \<lparr>Coordinates = Some [(1, 0, 0), (- 1, 0, 0)], Masses = None,
                         StellarFormationTime = None\<rparr>,
      PartType3 = None, PartType4 = None\<rparr> = Inl KeyError
   \<and> main True
     [\<lparr>Header_Time = Some (1 / 2),
       PartType2 = Some \<lparr>Coordinates = Some [(1, 0, 0), (- 1, 0, 0)], Masses = None,
                          StellarFormationTime = None\<rparr>,
       PartType3 = None, PartType4 = None\<rparr>,
      \<lparr>Header_Time = None,
       PartType2 = Some \<lparr>Coordinates = Some [(1, 0, 0), (- 1, 0, 0)], Masses = None,
                          StellarFormationTime = None\<rparr>,
       PartType3 = None, PartType4 = None\<rparr>] = Raised KeyError
   \<and> (\<exists>snap. load_snapshot
         \<lparr>Header_Time = Some (1 / 2),
          PartType2 = Some \<lparr>Coordinates = Some [(1, 0, 0), (- 1, 0, 0)], Masses = None,
                             StellarFormationTime = None\<rparr>,
          PartType3 = None, PartType4 = None\<rparr> = Inr snap \<and> time snap = 1 / 2)"
  using load_snapshot_time_attribute
    [of "\<lparr>Header_Time = None,
          PartType2 = Some \<lparr>Coordinates = Some [(1, 0, 0), (- 1, 0, 0)], Masses = None,
                             StellarFormationTime = None\<rparr>,
          PartType3 = None, PartType4 = None\<rparr>"
        "[\<lparr>Header_Time = Some (1 / 2),
           PartType2 = Some \<lparr>Coordinates = Some [(1, 0, 0), (- 1, 0, 0)], Masses = None,
                              StellarFormationTime = None\<rparr>,
           PartType3 = None, PartType4 = None\<rparr>,
          \<lparr>Header_Time = None,
           PartType2 = Some \<lparr>Coordinates = Some [(1, 0, 0), (- 1, 0, 0)], Masses = None,
                              StellarFormationTime = None\<rparr>,
           PartType3 = None, PartType4 = None\<rparr>]" 0]
    load_snapshot_time_attribute
    [of "\<lparr>Header_Time = Some (1 / 2),
          PartType2 = Some \<lparr>Coordinates = Some [(1, 0, 0), (- 1, 0, 0)], Masses = None,
                             StellarFormationTime = None\<rparr>,
          PartType3 = None, PartType4 = None\<rparr>" "[]" "1 / 2"]
  by (simp add: groups_complete_def group_complete_def)

text \<open>
  The claim as the specification words it fails on a file that has the time attribute and
  a group \<^verbatim>\<open>PartType4\<close> without the dataset \<^verbatim>\<open>Masses\<close>: no snapshot is produced.
\<close>

theorem load_snapshot_time_counterexample:
  "load_snapshot
     \<lparr>Header_Time = Some 0, PartType2 = None, PartType3 = None,
      PartType4 = Some \<lparr>Coordinates = Some [(1, 2, 3)], Masses = None,
                         StellarFormationTime = Some [0]\<rparr>\<rparr> = Inl KeyError"
  by (simp add: load_snapshot_def load_newstars_def dataset_def)

lemma load_snapshot_newstars:
  "load_snapshot f = Inr snap \<Longrightarrow>
   (case PartType4 f of
      None \<Rightarrow> newstars_pos snap = [] \<and> newstars_mass snap = [] \<and> newstars_time snap = []
    | Some g \<Rightarrow> Coordinates g = Some (newstars_pos snap) \<and> Masses g = Some (newstars_mass snap)
         \<and> StellarFormationTime g = Some (newstars_time snap))"
  by (auto simp add: load_snapshot_def load_newstars_def load_positions_def dataset_def
      split: sum.splits option.splits prod.splits)

text \<open>
  C10, as the code has it. The reader copies the three datasets of the newly formed stars
  as the file holds them and compares no lengths: the arrays of the snapshot are parallel
  when the datasets of the file are, and when the group is absent all three are empty.
\<close>

theorem load_snapshot_parallel:
  "load_snapshot f = Inr snap \<Longrightarrow> newstars_parallel_in_file f \<Longrightarrow>
     length (newstars_pos snap) = length (newstars_mass snap) \<and>
     length (newstars_pos snap) = length (newstars_time snap) \<and>
     (PartType4 f = None \<longrightarrow>
        length (newstars_pos snap) = 0 \<and> length (newstars_mass snap) = 0 \<and>
        length (newstars_time snap) = 0)"
  by (drule load_snapshot_newstars) (auto simp: newstars_parallel_in_file_def split: option.splits)

theorem load_snapshot_parallel_witness:
  "length (newstars_pos
      \<lparr>newstars_pos = [], newstars_mass = [], newstars_time = [],
       disk_pos = [(1, 0, 0), (- 1, 0, 0)], bulge_pos = [], time = 0\<rparr>) = 0
   \<and> length (newstars_pos
      \<lparr>newstars_pos = [(1, 2, 3), (4, 5, 6)], newstars_mass = [7, 8], newstars_time = [0, 1 / 4],
       disk_pos = [], bulge_pos = [], time = 1 / 2\<rparr>)
     = length (newstars_time
      \<lparr>newstars_pos = [(1, 2, 3), (4, 5, 6)], newstars_mass = [7, 8], newstars_time = [0, 1 / 4],
       disk_pos = [], bulge_pos = [], time = 1 / 2\<rparr>)"
proof -
  have a: "load_snapshot
      \<lparr>Header_Time = Some 0,
       PartType2 = Some \<lparr>Coordinates = Some [(1, 0, 0), (- 1, 0, 0)], Masses = None,
                          StellarFormationTime = None\<rparr>,
       PartType3 = None, PartType4 = None\<rparr>
     = Inr \<lparr>newstars_pos = [], newstars_mass = [], newstars_time = [],
            disk_pos = [(1, 0, 0), (- 1, 0, 0)], bulge_pos = [], time = 0\<rparr>"
    by (simp add: load_eval)
  have b: "load_snapshot
      \<lparr>Header_Time = Some (1 / 2), PartType2 = None, PartType3 = None,
       PartType4 = Some \<lparr>Coordinates = Some [(1, 2, 3), (4, 5, 6)], Masses = Some [7, 8],
                          StellarFormationTime = Some [0, 1 / 4]\<rparr>\<rparr>
     = Inr \<lparr>newstars_pos = [(1, 2, 3), (4, 5, 6)], newstars_mass = [7, 8],
            newstars_time = [0, 1 / 4], disk_pos = [], bulge_pos = [], time = 1 / 2\<rparr>"
    by (simp add: load_eval)
  show ?thesis
    using load_snapshot_parallel [OF a] load_snapshot_parallel [OF b]
    by (simp add: newstars_parallel_in_file_def)
qed

text \<open>
  The claim as worded fails on a file whose \<^verbatim>\<open>PartType4\<close> has one position, no mass and
  one formation time: the reader returns these arrays as they are.
\<close>

theorem load_snapshot_parallel_counterexample:
  "load_snapshot
     \<lparr>Header_Time = Some 0, PartType2 = None, PartType3 = None,
      PartType4 = Some \<lparr>Coordinates = Some [(1, 2, 3)], Masses = Some [],
                         StellarFormationTime = Some [0]\<rparr>\<rparr>
     = Inr \<lparr>newstars_pos = [(1, 2, 3)], newstars_mass = [], newstars_time = [0],
            disk_pos = [], bulge_pos = [], time = 0\<rparr>
   \<and> length [(1, 2, 3) :: vec3] \<noteq> length ([] :: real list)"
  by (simp add: load_eval)

section \<open>Properties of the percentiles and of the pool\<close>

lemma percentile_mset: "mset a = mset b \<Longrightarrow> percentile a q = percentile b q"
proof -
  assume h: "mset a = mset b"
  have "sort a = sort b"
    by (rule properties_for_sort) (simp_all add: h)
  moreover have "a = [] \<longleftrightarrow> b = []"
    using h by (metis mset_zero_iff)
  ultimately show ?thesis
    by (simp add: percentile_def)
qed

lemma percentile_limits_mset:
  assumes "mset a = mset b"
  shows "percentile_limits a = percentile_limits b"
  unfolding percentile_limits_def percentile_mset [OF assms, of 1] percentile_mset [OF assms, of 99]
  by (rule refl)

lemma percentile_Nil: "percentile [] q = Inl PercentileOfEmpty"
  by (simp add: percentile_def)

lemma percentile_limits_Nil: "percentile_limits [] = Inl PercentileOfEmpty"
  by (simp add: percentile_limits_def percentile_Nil)

lemma percentile_limits_nonempty: "a \<noteq> [] \<Longrightarrow> \<exists>l. percentile_limits a = Inr l"
  by (simp add: percentile_limits_def percentile_def Let_def)

text \<open>
  The interpolation between two neighbours of a sorted list lies between them, and grows
  with the position.
\<close>

lemma interp_bounds:
  fixes s :: "real list"
  assumes "sorted s" and "s \<noteq> []" and "0 \<le> h" and "h \<le> real (length s - 1)"
  defines "lo \<equiv> nat \<lfloor>h\<rfloor>"
  defines "hi \<equiv> min (lo + 1) (length s - 1)"
  shows "s ! lo \<le> s ! lo + (h - real lo) * (s ! hi - s ! lo)"
    and "s ! lo + (h - real lo) * (s ! hi - s ! lo) \<le> s ! hi"
    and "lo \<le> length s - 1" and "hi \<le> lo + 1" and "lo \<le> hi"
proof -
  have n: "0 < length s" using assms by simp
  have lo_le: "real lo \<le> h" using assms by (simp add: lo_def)
  have "\<lfloor>h\<rfloor> \<le> int (length s - 1)" using assms by (simp add: floor_le_iff)
  then show lo1: "lo \<le> length s - 1" by (simp add: lo_def)
  show "hi \<le> lo + 1" by (simp add: hi_def)
  show lohi: "lo \<le> hi" using lo1 by (simp add: hi_def)
  have "hi \<le> length s - 1" by (simp add: hi_def)
  then have "hi < length s" using n by linarith
  then have d: "s ! lo \<le> s ! hi" using assms(1) lohi by (simp add: sorted_nth_mono)
  have f0: "0 \<le> h - real lo" using lo_le by simp
  have "real lo = real_of_int \<lfloor>h\<rfloor>" using assms(3) by (simp add: lo_def)
  moreover have "h < real_of_int \<lfloor>h\<rfloor> + 1" by linarith
  ultimately have f1: "h - real lo \<le> 1" by linarith
  show "s ! lo \<le> s ! lo + (h - real lo) * (s ! hi - s ! lo)"
    using f0 d by simp
  have "(h - real lo) * (s ! hi - s ! lo) \<le> 1 * (s ! hi - s ! lo)"
    using f1 d by (intro mult_right_mono) simp_all
  then show "s ! lo + (h - real lo) * (s ! hi - s ! lo) \<le> s ! hi" by simp
qed

lemma interp_mono:
  fixes s :: "real list"
  assumes "sorted s" and "s \<noteq> []" and "0 \<le> h1" and "h1 \<le> h2" and "h2 \<le> real (length s - 1)"
  shows "s ! nat \<lfloor>h1\<rfloor> + (h1 - real (nat \<lfloor>h1\<rfloor>)) * (s ! min (nat \<lfloor>h1\<rfloor> + 1) (length s - 1) - s ! nat \<lfloor>h1\<rfloor>)
       \<le> s ! nat \<lfloor>h2\<rfloor> + (h2 - real (nat \<lfloor>h2\<rfloor>)) * (s ! min (nat \<lfloor>h2\<rfloor> + 1) (length s - 1) - s ! nat \<lfloor>h2\<rfloor>)"
proof -
  let ?l1 = "nat \<lfloor>h1\<rfloor>" and ?l2 = "nat \<lfloor>h2\<rfloor>"
  let ?u1 = "min (?l1 + 1) (length s - 1)" and ?u2 = "min (?l2 + 1) (length s - 1)"
  have b1: "h1 \<le> real (length s - 1)" and b2: "0 \<le> h2" using assms by simp_all
  note B1 = interp_bounds [OF assms(1,2,3) b1]
  note B2 = interp_bounds [OF assms(1,2) b2 assms(5)]
  have l12: "?l1 \<le> ?l2" using assms(4) by (simp add: floor_mono nat_mono)
  show ?thesis
  proof (cases "?l1 = ?l2")
    case True
    have d: "0 \<le> s ! ?u1 - s ! ?l1"
    proof -
      have "?u1 \<le> length s - 1" by simp
      moreover have "0 < length s" using assms(2) by simp
      ultimately have "?u1 < length s" by linarith
      then show ?thesis using assms(1) B1(5) by (simp add: sorted_nth_mono)
    qed
    have "(h1 - real ?l1) * (s ! ?u1 - s ! ?l1) \<le> (h2 - real ?l1) * (s ! ?u1 - s ! ?l1)"
      using assms(4) d by (intro mult_right_mono) simp_all
    then show ?thesis using True by simp
  next
    case False
    then have "?u1 \<le> ?l2" using l12 by simp
    moreover have "0 < length s" using assms(2) by simp
    then have "?l2 < length s" using B2(3) by linarith
    ultimately have "s ! ?u1 \<le> s ! ?l2" using assms(1) by (simp add: sorted_nth_mono)
    then show ?thesis using B1(2) B2(1) by linarith
  qed
qed

lemma percentile_mono:
  assumes "0 \<le> q1" and "q1 \<le> q2" and "q2 \<le> 100"
    and "percentile a q1 = Inr p1" and "percentile a q2 = Inr p2"
  shows "p1 \<le> p2"
proof -
  have ne: "a \<noteq> []" using assms(4) by (auto simp: percentile_def)
  let ?s = "sort a"
  let ?n1 = "real (length ?s - 1)"
  have s: "sorted ?s" "?s \<noteq> []" using ne by (simp, metis length_0_conv length_sort)
  have h0: "0 \<le> ?n1 * (q1 / 100)" using assms(1) by simp
  have h12: "?n1 * (q1 / 100) \<le> ?n1 * (q2 / 100)"
    using assms(2) by (intro mult_left_mono) simp_all
  have "?n1 * (q2 / 100) \<le> ?n1 * 1"
    using assms(3) by (intro mult_left_mono) simp_all
  then have h2: "?n1 * (q2 / 100) \<le> ?n1" by simp
  from interp_mono [OF s h0 h12 h2] show ?thesis
    using assms(4,5) ne by (simp add: percentile_def Let_def)
qed

lemma percentile_limits_ordered: "percentile_limits a = Inr (p1, p99) \<Longrightarrow> p1 \<le> p99"
  by (auto simp add: percentile_limits_def split: sum.splits intro: percentile_mono [of 1 99 a])

lemma col_Nil: "col0 [] = []" "col1 [] = []" "col2 [] = []"
  by (simp_all add: col0_def col1_def col2_def)

lemma foldl_pool:
  assumes "\<And>acc s. step acc s = (fst acc @ f s, snd acc @ g s)"
  shows "foldl step (ax, ay) snaps = (ax @ concat (map f snaps), ay @ concat (map g snaps))"
  by (induction snaps arbitrary: ax ay) (simp_all add: assms)

lemma extend_xy_eq:
  "extend_xy acc s =
     (fst acc @ col0 (newstars_pos s) @ col0 (disk_pos s) @ col0 (bulge_pos s),
      snd acc @ col1 (newstars_pos s) @ col1 (disk_pos s) @ col1 (bulge_pos s))"
  by (cases acc) (simp add: extend_xy_def col_Nil)

lemma extend_xz_eq:
  "extend_xz acc s =
     (fst acc @ col0 (newstars_pos s) @ col0 (disk_pos s) @ col0 (bulge_pos s),
      snd acc @ col2 (newstars_pos s) @ col2 (disk_pos s) @ col2 (bulge_pos s))"
  by (cases acc) (simp add: extend_xz_def col_Nil)

lemma tilted_extend_xy_eq:
  "tilted_extend_xy angle_x angle_z acc s =
     (fst acc @ col0 (rotate_3d (disk_pos s @ bulge_pos s @ newstars_pos s) angle_x angle_z),
      snd acc @ col1 (rotate_3d (disk_pos s @ bulge_pos s @ newstars_pos s) angle_x angle_z))"
  by (cases acc) (simp add: tilted_extend_xy_def vstack_def Let_def)

lemma view_limits_pooled:
  "view_limits snapshots =
     (case percentile_limits (pooled col0 snapshots) of Inl e \<Rightarrow> Inl e | Inr xlim \<Rightarrow>
     (case percentile_limits (pooled col1 snapshots) of Inl e \<Rightarrow> Inl e | Inr ylim \<Rightarrow>
        Inr (pad xlim, pad ylim)))"
  by (simp add: view_limits_def foldl_pool [OF extend_xy_eq] pooled_def split: sum.splits)

lemma edge_on_view_limits_pooled:
  "edge_on_view_limits snapshots =
     (case percentile_limits (pooled col0 snapshots) of Inl e \<Rightarrow> Inl e | Inr xlim \<Rightarrow>
     (case percentile_limits (pooled col2 snapshots) of Inl e \<Rightarrow> Inl e | Inr zlim \<Rightarrow>
        Inr (pad xlim, (- ((snd (pad xlim) - fst (pad xlim)) / 3), (snd (pad xlim) - fst (pad xlim)) / 3))))"
  by (simp add: edge_on_view_limits_def foldl_pool [OF extend_xz_eq] pooled_def Let_def
      split: sum.splits)

lemma tilted_view_limits_pooled:
  "tilted_view_limits angle_x angle_z snapshots =
     (case percentile_limits (tilted_pooled col0 angle_x angle_z snapshots) of Inl e \<Rightarrow> Inl e
      | Inr xlim \<Rightarrow>
     (case percentile_limits (tilted_pooled col1 angle_x angle_z snapshots) of Inl e \<Rightarrow> Inl e
      | Inr ylim \<Rightarrow> Inr (pad xlim, pad ylim)))"
  by (simp add: tilted_view_limits_def foldl_pool [OF tilted_extend_xy_eq] tilted_pooled_def
      split: sum.splits)

lemma mset_concat_map_cong:
  assumes "mset xs = mset ys"
  shows "mset (concat (map f xs)) = mset (concat (map f ys))"
proof -
  have "mset (concat (map f zs)) = sum_mset (image_mset (\<lambda>z. mset (f z)) (mset zs))" for zs
    by (induction zs) simp_all
  then show ?thesis using assms by simp
qed

lemma pooled_mset: "mset xs = mset ys \<Longrightarrow> mset (pooled col xs) = mset (pooled col ys)"
  unfolding pooled_def by (rule mset_concat_map_cong)

lemma tilted_pooled_mset:
  "mset xs = mset ys \<Longrightarrow> mset (tilted_pooled col ax az xs) = mset (tilted_pooled col ax az ys)"
  unfolding tilted_pooled_def by (rule mset_concat_map_cong)

section \<open>Properties of the viewing window\<close>

text \<open>
  C5. The limits depend on the snapshots only through the pooled coordinates, and the
  percentiles depend on the pool only through its sorted values: two sequences that hold
  the same snapshots in a different order have the same window, in each of the three
  views.
\<close>

theorem view_limits_permutation:
  assumes "mset snapshots = mset snapshots'"
  shows "view_limits snapshots = view_limits snapshots'
       \<and> edge_on_view_limits snapshots = edge_on_view_limits snapshots'
       \<and> tilted_view_limits angle_x angle_z snapshots = tilted_view_limits angle_x angle_z snapshots'"
  unfolding view_limits_pooled edge_on_view_limits_pooled tilted_view_limits_pooled
    percentile_limits_mset [OF pooled_mset [OF assms, of col0]]
    percentile_limits_mset [OF pooled_mset [OF assms, of col1]]
    percentile_limits_mset [OF pooled_mset [OF assms, of col2]]
    percentile_limits_mset [OF tilted_pooled_mset [OF assms, of col0]]
    percentile_limits_mset [OF tilted_pooled_mset [OF assms, of col1]]
  by simp

theorem view_limits_permutation_witness:
  "view_limits
     [\<lparr>newstars_pos = [], newstars_mass = [], newstars_time = [],
       disk_pos = [(1, 0, 0), (- 1, 0, 0)], bulge_pos = [], time = 0\<rparr>,
      \<lparr>newstars_pos = [(0, 2, 0)], newstars_mass = [1], newstars_time = [1 / 4],
       disk_pos = [(3, 1, 0), (- 2, 0, 1)], bulge_pos = [(0, 0, 0)], time = 1 / 2\<rparr>]
   = view_limits
     [\<lparr>newstars_pos = [(0, 2, 0)], newstars_mass = [1], newstars_time = [1 / 4],
       disk_pos = [(3, 1, 0), (- 2, 0, 1)], bulge_pos = [(0, 0, 0)], time = 1 / 2\<rparr>,
      \<lparr>newstars_pos = [], newstars_mass = [], newstars_time = [],
       disk_pos = [(1, 0, 0), (- 1, 0, 0)], bulge_pos = [], time = 0\<rparr>]"
  using view_limits_permutation
    [of "[\<lparr>newstars_pos = [], newstars_mass = [], newstars_time = [],
       disk_pos = [(1, 0, 0), (- 1, 0, 0)], bulge_pos = [], time = 0\<rparr>,
      \<lparr>newstars_pos = [(0, 2, 0)], newstars_mass = [1], newstars_time = [1 / 4],
       disk_pos = [(3, 1, 0), (- 2, 0, 1)], bulge_pos = [(0, 0, 0)], time = 1 / 2\<rparr>]"
        "[\<lparr>newstars_pos = [(0, 2, 0)], newstars_mass = [1], newstars_time = [1 / 4],
       disk_pos = [(3, 1, 0), (- 2, 0, 1)], bulge_pos = [(0, 0, 0)], time = 1 / 2\<rparr>,
      \<lparr>newstars_pos = [], newstars_mass = [], newstars_time = [],
       disk_pos = [(1, 0, 0), (- 1, 0, 0)], bulge_pos = [], time = 0\<rparr>]" 30 20]
  by simp

lemma spec_pool_omitting_mset:
  assumes "col [] = []"
  shows "mset (spec_pool_omitting col snapshots) = mset (pooled col snapshots)"
  by (induction snapshots) (simp_all add: spec_pool_omitting_def pooled_def assms)

lemma view_limits_omitting: "view_limits snapshots = spec_view_limits_omitting snapshots"
  unfolding view_limits_pooled spec_view_limits_omitting_def
    percentile_limits_mset [OF spec_pool_omitting_mset [of col0, OF col_Nil(1)]]
    percentile_limits_mset [OF spec_pool_omitting_mset [of col1, OF col_Nil(2)]]
  by (rule refl)

lemma is_padded_pad:
  assumes "percentile_limits a = Inr l"
  shows "is_padded_percentile_window a (pad l)"
proof -
  obtain p1 p99 where l: "l = (p1, p99)" by (cases l)
  have "p1 \<le> p99" using assms percentile_limits_ordered by (simp add: l)
  then show ?thesis using assms by (simp add: is_padded_percentile_window_def l pad_def Let_def)
qed

lemma map_animate: "map (animate snapshots) [0 ..< length snapshots] = map draw snapshots"
  by (rule nth_equalityI) (simp_all add: animate_def)

lemma map_edge_on_animate:
  "map (edge_on_animate snapshots) [0 ..< length snapshots] = map edge_on_draw snapshots"
  by (rule nth_equalityI) (simp_all add: edge_on_animate_def)

lemma map_tilted_animate:
  "map (tilted_animate ax az snapshots) [0 ..< length snapshots] = map (tilted_draw ax az) snapshots"
  by (rule nth_equalityI) (simp_all add: tilted_animate_def)

lemma pooled_Nil: "pooled col [] = []" "tilted_pooled col ax az [] = []"
  by (simp_all add: pooled_def tilted_pooled_def)

lemma view_limits_Inr:
  assumes "view_limits snapshots = Inr (xlim, ylim)"
  shows "is_padded_percentile_window (pooled col0 snapshots) xlim"
    and "is_padded_percentile_window (pooled col1 snapshots) ylim"
    and "snapshots \<noteq> []"
  using assms
  by (auto simp add: view_limits_pooled pooled_Nil percentile_limits_Nil is_padded_pad
      split: sum.splits)

lemma tilted_view_limits_Inr:
  assumes "tilted_view_limits ax az snapshots = Inr (xlim, ylim)"
  shows "is_padded_percentile_window (tilted_pooled col0 ax az snapshots) xlim"
    and "is_padded_percentile_window (tilted_pooled col1 ax az snapshots) ylim"
    and "snapshots \<noteq> []"
  using assms
  by (auto simp add: tilted_view_limits_pooled pooled_Nil percentile_limits_Nil is_padded_pad
      split: sum.splits)

lemma edge_on_view_limits_Inr:
  assumes "edge_on_view_limits snapshots = Inr (xlim, zlim)"
  shows "is_padded_percentile_window (pooled col0 snapshots) xlim"
    and "zlim = (- ((snd xlim - fst xlim) / 3), (snd xlim - fst xlim) / 3)"
    and "snapshots \<noteq> []"
  using assms
  by (auto simp add: edge_on_view_limits_pooled pooled_Nil percentile_limits_Nil is_padded_pad
      split: sum.splits)

lemma view_limits_total:
  "pooled col0 snapshots \<noteq> [] \<Longrightarrow> \<exists>w. view_limits snapshots = Inr w"
proof -
  assume h: "pooled col0 snapshots \<noteq> []"
  have "length (pooled col1 snapshots) = length (pooled col0 snapshots)"
    by (simp add: pooled_def col0_def col1_def length_concat comp_def)
  then have "pooled col1 snapshots \<noteq> []" using h by auto
  then show ?thesis
    using h percentile_limits_nonempty [of "pooled col0 snapshots"]
      percentile_limits_nonempty [of "pooled col1 snapshots"]
    by (auto simp add: view_limits_pooled)
qed

lemma create_runs:
  assumes "load_all files = Inr snapshots" and "view_limits snapshots = Inr (xlim, ylim)"
  shows "create_animation files = Inr (Animation xlim ylim (map draw snapshots))"
    and "create_static_frames files =
           Inr (map (\<lambda>snap. \<lparr>fig_xlim = xlim, fig_ylim = ylim, fig_frame = draw snap\<rparr>)
                  snapshots)"
proof -
  have "files \<noteq> []"
    using assms view_limits_Inr(3) [OF assms(2)] by auto
  then show "create_animation files = Inr (Animation xlim ylim (map draw snapshots))"
    using assms by (simp add: create_animation_def map_animate)
  show "create_static_frames files =
           Inr (map (\<lambda>snap. \<lparr>fig_xlim = xlim, fig_ylim = ylim, fig_frame = draw snap\<rparr>)
                  snapshots)"
    using assms by (simp add: create_static_frames_def)
qed

lemma tilted_runs:
  assumes "load_all files = Inr snapshots"
    and "tilted_view_limits angle_x angle_z snapshots = Inr (xlim, ylim)"
  shows "tilted_create_animation files angle_x angle_z =
           Inr (Animation xlim ylim (map (tilted_draw angle_x angle_z) snapshots))"
    and "tilted_create_static_frames files angle_x angle_z =
           Inr (map (\<lambda>snap. \<lparr>fig_xlim = xlim, fig_ylim = ylim,
                              fig_frame = tilted_draw angle_x angle_z snap\<rparr>) snapshots)"
proof -
  have "files \<noteq> []"
    using assms tilted_view_limits_Inr(3) [OF assms(2)] by auto
  then show "tilted_create_animation files angle_x angle_z =
           Inr (Animation xlim ylim (map (tilted_draw angle_x angle_z) snapshots))"
    using assms by (simp add: tilted_create_animation_def map_tilted_animate)
  show "tilted_create_static_frames files angle_x angle_z =
           Inr (map (\<lambda>snap. \<lparr>fig_xlim = xlim, fig_ylim = ylim,
                              fig_frame = tilted_draw angle_x angle_z snap\<rparr>) snapshots)"
    using assms by (simp add: tilted_create_static_frames_def)
qed

lemma edge_on_view_limits_total:
  "pooled col0 snapshots \<noteq> [] \<Longrightarrow> \<exists>w. edge_on_view_limits snapshots = Inr w"
proof -
  assume h: "pooled col0 snapshots \<noteq> []"
  have "length (pooled col2 snapshots) = length (pooled col0 snapshots)"
    by (simp add: pooled_def col0_def col2_def length_concat comp_def)
  then have "pooled col2 snapshots \<noteq> []" using h by auto
  then obtain l1 l2 where "percentile_limits (pooled col0 snapshots) = Inr l1"
    and "percentile_limits (pooled col2 snapshots) = Inr l2"
    using h percentile_limits_nonempty [of "pooled col0 snapshots"]
      percentile_limits_nonempty [of "pooled col2 snapshots"]
    by auto
  then have "edge_on_view_limits snapshots =
      Inr (pad l1, (- ((snd (pad l1) - fst (pad l1)) / 3), (snd (pad l1) - fst (pad l1)) / 3))"
    by (simp add: edge_on_view_limits_pooled)
  then show ?thesis by blast
qed

lemma tilted_view_limits_total:
  "tilted_pooled col0 angle_x angle_z snapshots \<noteq> [] \<Longrightarrow>
   \<exists>w. tilted_view_limits angle_x angle_z snapshots = Inr w"
proof -
  assume h: "tilted_pooled col0 angle_x angle_z snapshots \<noteq> []"
  have "length (tilted_pooled col1 angle_x angle_z snapshots)
        = length (tilted_pooled col0 angle_x angle_z snapshots)"
    by (simp add: tilted_pooled_def col0_def col1_def length_concat comp_def)
  then have "tilted_pooled col1 angle_x angle_z snapshots \<noteq> []" using h by auto
  then show ?thesis
    using h percentile_limits_nonempty [of "tilted_pooled col0 angle_x angle_z snapshots"]
      percentile_limits_nonempty [of "tilted_pooled col1 angle_x angle_z snapshots"]
    by (auto simp add: tilted_view_limits_pooled)
qed

lemma is_padded_ordered:
  assumes "is_padded_percentile_window a lims"
  shows "fst lims \<le> snd lims"
  using assms by (auto simp add: is_padded_percentile_window_def field_simps split: sum.splits)

text \<open>
  The figure of the edge-on view: with the limits of Z a third of the width of X on each
  side of zero, the figure is 12 by 8 when the width of X is positive, and has no finite
  width when the width of X is zero.
\<close>

lemma subplots_edge_on:
  assumes "zlim = (- ((snd xlim - fst xlim) / 3), (snd xlim - fst xlim) / 3)"
  shows "fst xlim < snd xlim \<Longrightarrow> subplots (edge_on_figsize xlim zlim) = Inr ()"
    and "fst xlim = snd xlim \<Longrightarrow> subplots (edge_on_figsize xlim zlim) = Inl ValueError"
proof -
  show "subplots (edge_on_figsize xlim zlim) = Inl ValueError" if "fst xlim = snd xlim"
    using that assms by (simp add: subplots_def edge_on_figsize_def true_divide_def)
  show "subplots (edge_on_figsize xlim zlim) = Inr ()" if h: "fst xlim < snd xlim"
  proof -
    define W where "W = snd xlim - fst xlim"
    have w: "0 < W" using h by (simp add: W_def)
    have z: "snd zlim - fst zlim = 2 * W / 3" using assms by (simp add: W_def)
    have "edge_on_figsize xlim zlim =
        (case true_divide W (2 * W / 3) of None \<Rightarrow> None | Some r \<Rightarrow> Some (8 * r, 8))"
      unfolding edge_on_figsize_def Let_def z W_def [symmetric] by (rule refl)
    moreover have "true_divide W (2 * W / 3) = Some (3 / 2)"
      using w by (simp add: true_divide_def)
    ultimately have "edge_on_figsize xlim zlim = Some (12, 8)" by simp
    then show ?thesis by (simp add: subplots_def)
  qed
qed

lemma edge_on_save_frames_Inr:
  assumes "subplots figsize = Inr ()"
  shows "edge_on_save_frames figsize xlim zlim snapshots =
           Inr (map (\<lambda>snap. \<lparr>fig_xlim = xlim, fig_ylim = zlim, fig_frame = edge_on_draw snap\<rparr>)
                  snapshots)"
  by (induction snapshots) (simp_all add: assms)

lemma edge_on_save_frames_Inl:
  assumes "subplots figsize = Inl e" and "snapshots \<noteq> []"
  shows "edge_on_save_frames figsize xlim zlim snapshots = Inl e"
  using assms by (cases snapshots) simp_all

lemma edge_on_runs:
  assumes "load_all files = Inr snapshots" and "edge_on_view_limits snapshots = Inr (xlim, zlim)"
  shows "fst xlim < snd xlim \<Longrightarrow>
           edge_on_create_animation files =
             Inr (Animation xlim zlim (map edge_on_draw snapshots)) \<and>
           edge_on_create_static_frames files =
             Inr (map (\<lambda>snap. \<lparr>fig_xlim = xlim, fig_ylim = zlim,
                                fig_frame = edge_on_draw snap\<rparr>) snapshots)"
    and "fst xlim = snd xlim \<Longrightarrow>
           edge_on_create_animation files = Inl ValueError \<and>
           edge_on_create_static_frames files = Inl ValueError"
proof -
  note z = edge_on_view_limits_Inr(2) [OF assms(2)]
  have s: "snapshots \<noteq> []"
    by (rule edge_on_view_limits_Inr(3) [OF assms(2)])
  then have f: "files \<noteq> []"
    using assms(1) by auto
  show "edge_on_create_animation files =
             Inr (Animation xlim zlim (map edge_on_draw snapshots)) \<and>
           edge_on_create_static_frames files =
             Inr (map (\<lambda>snap. \<lparr>fig_xlim = xlim, fig_ylim = zlim,
                                fig_frame = edge_on_draw snap\<rparr>) snapshots)"
    if "fst xlim < snd xlim"
    using subplots_edge_on(1) [OF z that] f assms
    by (simp add: edge_on_create_animation_def edge_on_create_static_frames_def
        map_edge_on_animate edge_on_save_frames_Inr)
  show "edge_on_create_animation files = Inl ValueError \<and>
           edge_on_create_static_frames files = Inl ValueError"
    if "fst xlim = snd xlim"
    using subplots_edge_on(2) [OF z that] f s assms
    by (simp add: edge_on_create_animation_def edge_on_create_static_frames_def
        edge_on_save_frames_Inl)
qed

text \<open>
  C3, as the code has it. Whenever the pool is not empty the window is computed. In the
  face-on and the tilted view each axis of the window is the interval from the 1st to the
  99th percentile of the pooled (rotated, in the tilted view) coordinates of the whole
  sequence, widened by a tenth of its width at each end, and the one window computed from
  the whole sequence is the window of the animation and of each static figure. In the
  edge-on view this holds of the horizontal axis X, and the limits of the vertical axis Z
  are a third of the width of X on each side of zero; when the width of X is positive
  that window is the window of the animation and of each static figure, and when it is
  zero the size of the figure is not a finite number, the plotting library refuses it and
  nothing is drawn.
\<close>

theorem window_padded_percentiles_fixed:
  assumes "load_all files = Inr snapshots"
  shows
    "(pooled col0 snapshots \<noteq> [] \<longrightarrow>
        (\<exists>w. view_limits snapshots = Inr w) \<and> (\<exists>w. edge_on_view_limits snapshots = Inr w))
     \<and> (tilted_pooled col0 angle_x angle_z snapshots \<noteq> [] \<longrightarrow>
        (\<exists>w. tilted_view_limits angle_x angle_z snapshots = Inr w))
     \<and> (view_limits snapshots = Inr (xlim, ylim) \<longrightarrow>
          is_padded_percentile_window (pooled col0 snapshots) xlim \<and>
          is_padded_percentile_window (pooled col1 snapshots) ylim \<and>
          create_animation files = Inr (Animation xlim ylim (map draw snapshots)) \<and>
          create_static_frames files =
            Inr (map (\<lambda>snap. \<lparr>fig_xlim = xlim, fig_ylim = ylim, fig_frame = draw snap\<rparr>)
                   snapshots))
     \<and> (tilted_view_limits angle_x angle_z snapshots = Inr (xlim, ylim) \<longrightarrow>
          is_padded_percentile_window (tilted_pooled col0 angle_x angle_z snapshots) xlim \<and>
          is_padded_percentile_window (tilted_pooled col1 angle_x angle_z snapshots) ylim \<and>
          tilted_create_animation files angle_x angle_z =
            Inr (Animation xlim ylim (map (tilted_draw angle_x angle_z) snapshots)) \<and>
          tilted_create_static_frames files angle_x angle_z =
            Inr (map (\<lambda>snap. \<lparr>fig_xlim = xlim, fig_ylim = ylim,
                               fig_frame = tilted_draw angle_x angle_z snap\<rparr>) snapshots))
     \<and> (edge_on_view_limits snapshots = Inr (xlim, zlim) \<longrightarrow>
          is_padded_percentile_window (pooled col0 snapshots) xlim \<and>
          zlim = (- ((snd xlim - fst xlim) / 3), (snd xlim - fst xlim) / 3) \<and>
          fst xlim \<le> snd xlim \<and>
          (fst xlim < snd xlim \<longrightarrow>
             edge_on_create_animation files =
               Inr (Animation xlim zlim (map edge_on_draw snapshots)) \<and>
             edge_on_create_static_frames files =
               Inr (map (\<lambda>snap. \<lparr>fig_xlim = xlim, fig_ylim = zlim,
                                  fig_frame = edge_on_draw snap\<rparr>) snapshots)) \<and>
          (fst xlim = snd xlim \<longrightarrow>
             edge_on_create_animation files = Inl ValueError \<and>
             edge_on_create_static_frames files = Inl ValueError))"
proof -
  have a: "pooled col0 snapshots \<noteq> [] \<longrightarrow>
        (\<exists>w. view_limits snapshots = Inr w) \<and> (\<exists>w. edge_on_view_limits snapshots = Inr w)"
    using view_limits_total edge_on_view_limits_total by blast
  have a': "tilted_pooled col0 angle_x angle_z snapshots \<noteq> [] \<longrightarrow>
        (\<exists>w. tilted_view_limits angle_x angle_z snapshots = Inr w)"
    using tilted_view_limits_total by blast
  have b: "is_padded_percentile_window (pooled col0 snapshots) xlim \<and>
          is_padded_percentile_window (pooled col1 snapshots) ylim \<and>
          create_animation files = Inr (Animation xlim ylim (map draw snapshots)) \<and>
          create_static_frames files =
            Inr (map (\<lambda>snap. \<lparr>fig_xlim = xlim, fig_ylim = ylim, fig_frame = draw snap\<rparr>)
                   snapshots)"
    if h: "view_limits snapshots = Inr (xlim, ylim)"
    using view_limits_Inr(1,2) [OF h] create_runs [OF assms h] by simp
  have c: "is_padded_percentile_window (tilted_pooled col0 angle_x angle_z snapshots) xlim \<and>
          is_padded_percentile_window (tilted_pooled col1 angle_x angle_z snapshots) ylim \<and>
          tilted_create_animation files angle_x angle_z =
            Inr (Animation xlim ylim (map (tilted_draw angle_x angle_z) snapshots)) \<and>
          tilted_create_static_frames files angle_x angle_z =
            Inr (map (\<lambda>snap. \<lparr>fig_xlim = xlim, fig_ylim = ylim,
                               fig_frame = tilted_draw angle_x angle_z snap\<rparr>) snapshots)"
    if h: "tilted_view_limits angle_x angle_z snapshots = Inr (xlim, ylim)"
    using tilted_view_limits_Inr(1,2) [OF h] tilted_runs [OF assms h] by simp
  have d: "is_padded_percentile_window (pooled col0 snapshots) xlim \<and>
          zlim = (- ((snd xlim - fst xlim) / 3), (snd xlim - fst xlim) / 3) \<and>
          fst xlim \<le> snd xlim \<and>
          (fst xlim < snd xlim \<longrightarrow>
             edge_on_create_animation files =
               Inr (Animation xlim zlim (map edge_on_draw snapshots)) \<and>
             edge_on_create_static_frames files =
               Inr (map (\<lambda>snap. \<lparr>fig_xlim = xlim, fig_ylim = zlim,
                                  fig_frame = edge_on_draw snap\<rparr>) snapshots)) \<and>
          (fst xlim = snd xlim \<longrightarrow>
             edge_on_create_animation files = Inl ValueError \<and>
             edge_on_create_static_frames files = Inl ValueError)"
    if h: "edge_on_view_limits snapshots = Inr (xlim, zlim)"
    using edge_on_view_limits_Inr(1,2) [OF h] edge_on_runs [OF assms h]
      is_padded_ordered [OF edge_on_view_limits_Inr(1) [OF h]]
    by blast
  from a a' b c d show ?thesis by blast
qed

text \<open>
  The scenario of the specification, three snapshots at the times 0, 0.5 and 1, in the
  face-on and in the edge-on view; and the single particle, whose window has no width, in
  the edge-on view.
\<close>

theorem window_padded_percentiles_fixed_witness:
  "is_padded_percentile_window
     (pooled col0 [scenario_snapshot 0, scenario_snapshot (1 / 2), scenario_snapshot 1])
     (- (6 / 5), 6 / 5)
   \<and> create_animation [scenario_file 0, scenario_file (1 / 2), scenario_file 1]
     = Inr (Animation (- (6 / 5), 6 / 5) (0, 0)
         (map draw [scenario_snapshot 0, scenario_snapshot (1 / 2), scenario_snapshot 1]))
   \<and> edge_on_create_animation [scenario_file 0, scenario_file (1 / 2), scenario_file 1]
     = Inr (Animation (- (6 / 5), 6 / 5) (- (4 / 5), 4 / 5)
         (map edge_on_draw [scenario_snapshot 0, scenario_snapshot (1 / 2), scenario_snapshot 1]))
   \<and> edge_on_create_static_frames [single_particle_file] = Inl ValueError"
proof -
  have a: "load_all [scenario_file 0, scenario_file (1 / 2), scenario_file 1]
     = Inr [scenario_snapshot 0, scenario_snapshot (1 / 2), scenario_snapshot 1]"
    by (simp add: example_eval load_eval)
  have b: "view_limits [scenario_snapshot 0, scenario_snapshot (1 / 2), scenario_snapshot 1]
     = Inr ((- (6 / 5), 6 / 5), (0, 0))"
    by (simp add: example_eval view_limits_pooled pooled_def window_eval)
  have c: "edge_on_view_limits
       [scenario_snapshot 0, scenario_snapshot (1 / 2), scenario_snapshot 1]
     = Inr ((- (6 / 5), 6 / 5), (- (4 / 5), 4 / 5))"
    by (simp add: example_eval edge_on_view_limits_pooled pooled_def window_eval)
  have d: "fst (- (6 / 5), 6 / 5 :: real) < snd (- (6 / 5), 6 / 5 :: real)"
    by simp
  have a': "load_all [single_particle_file] = Inr [single_particle_snapshot]"
    by (simp add: example_eval load_eval)
  have c': "edge_on_view_limits [single_particle_snapshot] = Inr ((1, 1), (0, 0))"
    by (simp add: example_eval edge_on_view_limits_pooled pooled_def window_eval)
  have d': "fst (1 :: real, 1 :: real) = snd (1 :: real, 1 :: real)"
    by simp
  from window_padded_percentiles_fixed
      [OF a, of _ _ "(- (6 / 5), 6 / 5)" "(0, 0)" "(- (4 / 5), 4 / 5)"] b c d
    window_padded_percentiles_fixed [OF a', of _ _ "(1, 1)" _ "(0, 0)"] c' d'
  show ?thesis by blast
qed

text \<open>
  The claim as worded fails on the vertical axis of the edge-on view: with every particle
  at z = 100 the 1st and the 99th percentile of z are 100, and the window of Z is
  [-49/125, 49/125], which does not hold them.
\<close>

theorem window_padded_percentiles_counterexample:
  "edge_on_view_limits
     [\<lparr>newstars_pos = [], newstars_mass = [], newstars_time = [],
       disk_pos = [(0, 0, 100), (1, 1, 100)], bulge_pos = [], time = 0\<rparr>]
     = Inr ((- (11 / 125), 136 / 125), (- (49 / 125), 49 / 125))
   \<and> percentile_limits (pooled col2
     [\<lparr>newstars_pos = [], newstars_mass = [], newstars_time = [],
       disk_pos = [(0, 0, 100), (1, 1, 100)], bulge_pos = [], time = 0\<rparr>]) = Inr (100, 100)
   \<and> \<not> is_padded_percentile_window (pooled col2
     [\<lparr>newstars_pos = [], newstars_mass = [], newstars_time = [],
       disk_pos = [(0, 0, 100), (1, 1, 100)], bulge_pos = [], time = 0\<rparr>]) (- (49 / 125), 49 / 125)"
  by (simp add: edge_on_view_limits_pooled is_padded_percentile_window_def pooled_def window_eval)

lemma pooled_change_z:
  "pooled col0 (map (change_z g) snapshots) = pooled col0 snapshots"
  "pooled col2 (map (change_z g) snapshots) = map g (pooled col2 snapshots)"
  by (simp_all add: pooled_def change_z_def col0_def col2_def comp_def split_def map_concat)

lemma edge_on_view_limits_change_z:
  "edge_on_view_limits (map (change_z g) snapshots) = edge_on_view_limits snapshots"
proof (cases "pooled col2 snapshots = []")
  case True
  then show ?thesis
    by (simp add: edge_on_view_limits_pooled pooled_change_z percentile_limits_Nil split: sum.splits)
next
  case False
  then obtain l l' where "percentile_limits (pooled col2 snapshots) = Inr l"
    and "percentile_limits (map g (pooled col2 snapshots)) = Inr l'"
    using percentile_limits_nonempty [of "pooled col2 snapshots"]
      percentile_limits_nonempty [of "map g (pooled col2 snapshots)"] by auto
  then show ?thesis
    by (simp add: edge_on_view_limits_pooled pooled_change_z split: sum.splits)
qed

text \<open>
  C1, as the code has it. In the edge-on view the window is computed whenever the pool is
  not empty; its horizontal limits are the padded percentile window of the pooled x
  coordinates and the limits of the thin axis Z are exactly [-W/3, W/3], \<open>W\<close> the
  width of the horizontal limits; changing the z coordinates of the data in any way
  changes neither. When \<open>W\<close> is positive these limits are the ones of the animation
  and of every static figure; when \<open>W\<close> is zero the size of the figure is not a finite
  number, the plotting library refuses it and nothing is drawn. The tilted view has no
  such override: both of its axes are padded percentile windows of the rotated
  coordinates.
\<close>

theorem edge_on_thin_axis_window:
  "(pooled col0 snapshots \<noteq> [] \<longrightarrow> (\<exists>w. edge_on_view_limits snapshots = Inr w))
   \<and> (edge_on_view_limits snapshots = Inr (xlim, zlim) \<longrightarrow>
      is_padded_percentile_window (pooled col0 snapshots) xlim \<and>
      zlim = (- ((snd xlim - fst xlim) / 3), (snd xlim - fst xlim) / 3) \<and>
      edge_on_view_limits (map (change_z g) snapshots) = Inr (xlim, zlim) \<and>
      fst xlim \<le> snd xlim \<and>
      (load_all files = Inr snapshots \<and> fst xlim < snd xlim \<longrightarrow>
         edge_on_create_animation files =
           Inr (Animation xlim zlim (map edge_on_draw snapshots)) \<and>
         edge_on_create_static_frames files =
           Inr (map (\<lambda>snap. \<lparr>fig_xlim = xlim, fig_ylim = zlim,
                              fig_frame = edge_on_draw snap\<rparr>) snapshots)) \<and>
      (load_all files = Inr snapshots \<and> fst xlim = snd xlim \<longrightarrow>
         edge_on_create_animation files = Inl ValueError \<and>
         edge_on_create_static_frames files = Inl ValueError))
   \<and> (tilted_view_limits angle_x angle_z snapshots = Inr (xlim, ylim) \<longrightarrow>
      is_padded_percentile_window (tilted_pooled col0 angle_x angle_z snapshots) xlim \<and>
      is_padded_percentile_window (tilted_pooled col1 angle_x angle_z snapshots) ylim)"
proof -
  have a: "pooled col0 snapshots \<noteq> [] \<longrightarrow> (\<exists>w. edge_on_view_limits snapshots = Inr w)"
    using edge_on_view_limits_total by blast
  have b: "is_padded_percentile_window (pooled col0 snapshots) xlim \<and>
      zlim = (- ((snd xlim - fst xlim) / 3), (snd xlim - fst xlim) / 3) \<and>
      edge_on_view_limits (map (change_z g) snapshots) = Inr (xlim, zlim) \<and>
      fst xlim \<le> snd xlim \<and>
      (load_all files = Inr snapshots \<and> fst xlim < snd xlim \<longrightarrow>
         edge_on_create_animation files =
           Inr (Animation xlim zlim (map edge_on_draw snapshots)) \<and>
         edge_on_create_static_frames files =
           Inr (map (\<lambda>snap. \<lparr>fig_xlim = xlim, fig_ylim = zlim,
                              fig_frame = edge_on_draw snap\<rparr>) snapshots)) \<and>
      (load_all files = Inr snapshots \<and> fst xlim = snd xlim \<longrightarrow>
         edge_on_create_animation files = Inl ValueError \<and>
         edge_on_create_static_frames files = Inl ValueError)"
    if h: "edge_on_view_limits snapshots = Inr (xlim, zlim)"
  proof -
    have "edge_on_view_limits (map (change_z g) snapshots) = Inr (xlim, zlim)"
      using h by (simp add: edge_on_view_limits_change_z)
    then show ?thesis
      using edge_on_view_limits_Inr(1,2) [OF h] edge_on_runs [of files snapshots, OF _ h]
        is_padded_ordered [OF edge_on_view_limits_Inr(1) [OF h]]
      by blast
  qed
  have c: "is_padded_percentile_window (tilted_pooled col0 angle_x angle_z snapshots) xlim \<and>
      is_padded_percentile_window (tilted_pooled col1 angle_x angle_z snapshots) ylim"
    if h: "tilted_view_limits angle_x angle_z snapshots = Inr (xlim, ylim)"
    using tilted_view_limits_Inr(1,2) [OF h] by simp
  from a b c show ?thesis by blast
qed

text \<open>
  Two particles at z = 100, with their z coordinates as they are and set to zero; the
  single particle, whose window has no width; and the tilted view of two particles under
  the angles 180 and 90.
\<close>

theorem edge_on_thin_axis_window_witness:
  "edge_on_view_limits (map (change_z (\<lambda>z. 0))
     [\<lparr>newstars_pos = [], newstars_mass = [], newstars_time = [],
       disk_pos = [(0, 0, 100), (1, 1, 100)], bulge_pos = [], time = 0\<rparr>])
     = Inr ((- (11 / 125), 136 / 125), (- (49 / 125), 49 / 125))
   \<and> edge_on_create_animation
     [\<lparr>Header_Time = Some 0,
       PartType2 = Some \<lparr>Coordinates = Some [(0, 0, 100), (1, 1, 100)], Masses = None,
                          StellarFormationTime = None\<rparr>,
       PartType3 = None, PartType4 = None\<rparr>]
     = Inr (Animation (- (11 / 125), 136 / 125) (- (49 / 125), 49 / 125)
         (map edge_on_draw
            [\<lparr>newstars_pos = [], newstars_mass = [], newstars_time = [],
              disk_pos = [(0, 0, 100), (1, 1, 100)], bulge_pos = [], time = 0\<rparr>]))
   \<and> edge_on_create_animation [single_particle_file] = Inl ValueError
   \<and> is_padded_percentile_window (tilted_pooled col1 180 90
     [\<lparr>newstars_pos = [], newstars_mass = [], newstars_time = [],
       disk_pos = [(0, 0, 0), (1, 2, 0)], bulge_pos = [], time = 0\<rparr>]) (- (11 / 125), 136 / 125)"
proof -
  have a: "edge_on_view_limits
     [\<lparr>newstars_pos = [], newstars_mass = [], newstars_time = [],
       disk_pos = [(0, 0, 100), (1, 1, 100)], bulge_pos = [], time = 0\<rparr>]
     = Inr ((- (11 / 125), 136 / 125), (- (49 / 125), 49 / 125))"
    by (simp add: edge_on_view_limits_pooled pooled_def window_eval)
  have l: "load_all
     [\<lparr>Header_Time = Some 0,
       PartType2 = Some \<lparr>Coordinates = Some [(0, 0, 100), (1, 1, 100)], Masses = None,
                          StellarFormationTime = None\<rparr>,
       PartType3 = None, PartType4 = None\<rparr>]
     = Inr
     [\<lparr>newstars_pos = [], newstars_mass = [], newstars_time = [],
       disk_pos = [(0, 0, 100), (1, 1, 100)], bulge_pos = [], time = 0\<rparr>]"
    by (simp add: load_eval)
  have d: "fst (- (11 / 125), 136 / 125 :: real) < snd (- (11 / 125), 136 / 125 :: real)"
    by simp
  have l': "load_all [single_particle_file] = Inr [single_particle_snapshot]"
    by (simp add: example_eval load_eval)
  have a': "edge_on_view_limits [single_particle_snapshot] = Inr ((1, 1), (0, 0))"
    by (simp add: example_eval edge_on_view_limits_pooled pooled_def window_eval)
  have d': "fst (1 :: real, 1 :: real) = snd (1 :: real, 1 :: real)"
    by simp
  have b: "tilted_view_limits 180 90
     [\<lparr>newstars_pos = [], newstars_mass = [], newstars_time = [],
       disk_pos = [(0, 0, 0), (1, 2, 0)], bulge_pos = [], time = 0\<rparr>]
     = Inr ((- (22 / 125), 272 / 125), (- (11 / 125), 136 / 125))"
    by (simp add: tilted_view_limits_pooled tilted_pooled_def rotate_3d_rows radians_def
        spec_rot_x_def spec_rot_z_def window_eval)
  from edge_on_thin_axis_window
      [of "[\<lparr>newstars_pos = [], newstars_mass = [], newstars_time = [],
       disk_pos = [(0, 0, 100), (1, 1, 100)], bulge_pos = [], time = 0\<rparr>]"
        "(- (11 / 125), 136 / 125)" "(- (49 / 125), 49 / 125)" "\<lambda>z. 0"
        "[\<lparr>Header_Time = Some 0,
       PartType2 = Some \<lparr>Coordinates = Some [(0, 0, 100), (1, 1, 100)], Masses = None,
                          StellarFormationTime = None\<rparr>,
       PartType3 = None, PartType4 = None\<rparr>]"] a l d
    edge_on_thin_axis_window
      [of "[single_particle_snapshot]" "(1, 1)" "(0, 0)" _ "[single_particle_file]"] a' l' d'
    edge_on_thin_axis_window
      [of "[\<lparr>newstars_pos = [], newstars_mass = [], newstars_time = [],
       disk_pos = [(0, 0, 0), (1, 2, 0)], bulge_pos = [], time = 0\<rparr>]"
        "(- (22 / 125), 272 / 125)" _ _ _ 180 90 "(- (11 / 125), 136 / 125)"] b
  show ?thesis by blast
qed

text \<open>
  The claim as worded fails in the tilted view: for one snapshot with the disk positions
  (0, 0, 0) and (1, 2, 0) seen under the angles 180 and 90 the horizontal limits are
  [-22/125, 272/125], of width W = 294/125, and the vertical limits are [-11/125, 136/125],
  not [-98/125, 98/125].
\<close>

theorem edge_on_thin_axis_window_counterexample:
  "tilted_view_limits 180 90
     [\<lparr>newstars_pos = [], newstars_mass = [], newstars_time = [],
       disk_pos = [(0, 0, 0), (1, 2, 0)], bulge_pos = [], time = 0\<rparr>]
     = Inr ((- (22 / 125), 272 / 125), (- (11 / 125), 136 / 125))
   \<and> (- (11 / 125), 136 / 125) \<noteq>
       (- ((272 / 125 - (- (22 / 125))) / 3), (272 / 125 - (- (22 / 125))) / (3 :: real))"
  by (simp add: tilted_view_limits_pooled tilted_pooled_def rotate_3d_rows radians_def
      spec_rot_x_def spec_rot_z_def window_eval)

lemma no_particles_pooled:
  assumes "\<forall>snap\<in>set snapshots. no_particles snap" and "col [] = []"
  shows "pooled col snapshots = []"
  using assms by (induction snapshots) (simp_all add: pooled_def no_particles_def)

lemma no_particles_view_limits:
  assumes "\<forall>snap\<in>set snapshots. no_particles snap"
  shows "view_limits snapshots = Inl PercentileOfEmpty"
  by (simp add: view_limits_pooled no_particles_pooled [of snapshots col0, OF assms col_Nil(1)] percentile_limits_Nil)

text \<open>
  C2, as the code has it. With no snapshot file \<^verbatim>\<open>create_animation\<close> reports that none
  was found and returns, in each of the three views: nothing is drawn and no error is
  raised. \<^verbatim>\<open>create_static_frames\<close> has no such test and asks for the percentiles of an
  empty list. When files are found and every snapshot is without particles, the pool is
  empty, the percentiles fail, and neither a figure nor an animation is produced; the
  script stops on the exception.
\<close>

theorem empty_pool_renders_nothing:
  "create_animation [] = Inr NoSnapshotsFound
   \<and> edge_on_create_animation [] = Inr NoSnapshotsFound
   \<and> tilted_create_animation [] angle_x angle_z = Inr NoSnapshotsFound
   \<and> create_static_frames [] = Inl PercentileOfEmpty
   \<and> (files \<noteq> [] \<and> load_all files = Inr snapshots \<and> (\<forall>snap\<in>set snapshots. no_particles snap) \<longrightarrow>
        view_limits snapshots = Inl PercentileOfEmpty \<and>
        create_animation files = Inl PercentileOfEmpty \<and>
        create_static_frames files = Inl PercentileOfEmpty \<and>
        main True files = Raised PercentileOfEmpty)"
proof -
  have "create_static_frames [] = Inl PercentileOfEmpty"
    by (simp add: create_static_frames_def view_limits_pooled pooled_Nil percentile_limits_Nil)
  moreover have "view_limits snapshots = Inl PercentileOfEmpty \<and>
        create_animation files = Inl PercentileOfEmpty \<and>
        create_static_frames files = Inl PercentileOfEmpty \<and>
        main True files = Raised PercentileOfEmpty"
    if "files \<noteq> []" and "load_all files = Inr snapshots"
      and "\<forall>snap\<in>set snapshots. no_particles snap"
    using that no_particles_view_limits [of snapshots]
    by (simp add: create_animation_def create_static_frames_def main_def)
  ultimately show ?thesis
    by (simp add: create_animation_def edge_on_create_animation_def tilted_create_animation_def)
qed

theorem empty_pool_renders_nothing_witness:
  "create_animation
     [\<lparr>Header_Time = Some 0,
       PartType2 = None,
       PartType3 = None, PartType4 = None\<rparr>] = Inl PercentileOfEmpty
   \<and> main True
     [\<lparr>Header_Time = Some 0,
       PartType2 = None,
       PartType3 = None, PartType4 = None\<rparr>] = Raised PercentileOfEmpty"
proof -
  have a: "load_all
     [\<lparr>Header_Time = Some 0,
       PartType2 = None,
       PartType3 = None, PartType4 = None\<rparr>]
     = Inr [\<lparr>newstars_pos = [], newstars_mass = [], newstars_time = [],
       disk_pos = [], bulge_pos = [], time = 0\<rparr>]"
    by (simp add: load_eval)
  have b: "\<forall>snap\<in>set [\<lparr>newstars_pos = [], newstars_mass = [], newstars_time = [],
       disk_pos = [], bulge_pos = [], time = 0\<rparr>]. no_particles snap"
    by (simp add: no_particles_def)
  from empty_pool_renders_nothing
      [of _ _ "[\<lparr>Header_Time = Some 0,
       PartType2 = None,
       PartType3 = None, PartType4 = None\<rparr>]"
        "[\<lparr>newstars_pos = [], newstars_mass = [], newstars_time = [],
       disk_pos = [], bulge_pos = [], time = 0\<rparr>]"] a b
  show ?thesis by blast
qed

text \<open>
  The claim as worded fails when no snapshot file is found: \<^verbatim>\<open>create_animation\<close> returns
  without an error.
\<close>

theorem empty_pool_counterexample:
  "create_animation [] = Inr NoSnapshotsFound
   \<and> create_animation [] \<noteq> Inl PercentileOfEmpty
   \<and> create_animation [] \<noteq> Inl KeyError"
  by (simp add: create_animation_def)

lemma load_snapshot_absent:
  assumes "load_snapshot f = Inr snap"
  shows "PartType4 f = None \<longrightarrow>
           newstars_pos snap = [] \<and> newstars_mass snap = [] \<and> newstars_time snap = []"
    and "PartType2 f = None \<longrightarrow> disk_pos snap = []"
    and "PartType3 f = None \<longrightarrow> bulge_pos snap = []"
  using assms
  by (auto simp add: load_snapshot_def load_newstars_def load_positions_def dataset_def
      split: sum.splits option.splits prod.splits)

lemma no_newstars_offsets:
  assumes "newstars_pos snap = []"
  shows "new_offsets (draw snap) = []" and "new_offsets (edge_on_draw snap) = []"
    and "new_offsets (tilted_draw angle_x angle_z snap) = []"
  using assms by (simp_all add: draw_def edge_on_draw_def tilted_draw_def Let_def)

text \<open>
  C8, as the code has it. A file that has the time attribute, and whose groups hold the
  datasets the reader asks for, is read into a snapshot in which every particle class
  that is absent from the file is an array of no rows, and the frames of the three views
  draw no new star when that class is absent. An array of no rows projects to no points,
  in each view. The window computed by the code is the window computed from the pool that
  leaves the frames without newly formed stars out of the pool of the newly formed stars.
\<close>

theorem empty_class_robust:
  "(Header_Time f = Some t \<and> groups_complete f \<longrightarrow>
      (\<exists>snap. load_snapshot f = Inr snap \<and>
         (PartType4 f = None \<longrightarrow>
            newstars_pos snap = [] \<and> newstars_mass snap = [] \<and> newstars_time snap = [] \<and>
            new_offsets (draw snap) = [] \<and> new_offsets (edge_on_draw snap) = [] \<and>
            new_offsets (tilted_draw angle_x angle_z snap) = []) \<and>
         (PartType2 f = None \<longrightarrow> disk_pos snap = []) \<and>
         (PartType3 f = None \<longrightarrow> bulge_pos snap = [])))
   \<and> cols01 [] = [] \<and> cols02 [] = [] \<and> cols01 (rotate_3d [] angle_x angle_z) = []
   \<and> view_limits snapshots = spec_view_limits_omitting snapshots"
proof -
  have "\<exists>snap. load_snapshot f = Inr snap \<and>
         (PartType4 f = None \<longrightarrow>
            newstars_pos snap = [] \<and> newstars_mass snap = [] \<and> newstars_time snap = [] \<and>
            new_offsets (draw snap) = [] \<and> new_offsets (edge_on_draw snap) = [] \<and>
            new_offsets (tilted_draw angle_x angle_z snap) = []) \<and>
         (PartType2 f = None \<longrightarrow> disk_pos snap = []) \<and>
         (PartType3 f = None \<longrightarrow> bulge_pos snap = [])"
    if "Header_Time f = Some t" and "groups_complete f"
  proof -
    from load_snapshot_complete [OF that] obtain snap where s: "load_snapshot f = Inr snap"
      by blast
    show ?thesis
      using s load_snapshot_absent [OF s] no_newstars_offsets(1,2) [of snap]
        no_newstars_offsets(3) [of snap angle_x angle_z]
      by (intro exI [of _ snap]) simp
  qed
  moreover have "cols01 [] = [] \<and> cols02 [] = [] \<and> cols01 (rotate_3d [] angle_x angle_z) = []"
    by (simp add: cols01_def cols02_def rotate_3d_rows)
  ultimately show ?thesis
    using view_limits_omitting [of snapshots] by blast
qed

text \<open>
  The file of the scenario, which has neither bulge nor newly formed stars; and a sequence
  of two frames of which the first has no newly formed star.
\<close>

theorem empty_class_robust_witness:
  "(\<exists>snap. load_snapshot (scenario_file 0) = Inr snap \<and>
      newstars_pos snap = [] \<and> bulge_pos snap = [] \<and>
      new_offsets (tilted_draw 30 20 snap) = [])
   \<and> view_limits
     [scenario_snapshot 0,
      \<lparr>newstars_pos = [(0, 2, 0)], newstars_mass = [1], newstars_time = [1 / 4],
       disk_pos = [(3, 1, 0), (- 2, 0, 1)], bulge_pos = [(0, 0, 0)], time = 1 / 2\<rparr>]
     = spec_view_limits_omitting
     [scenario_snapshot 0,
      \<lparr>newstars_pos = [(0, 2, 0)], newstars_mass = [1], newstars_time = [1 / 4],
       disk_pos = [(3, 1, 0), (- 2, 0, 1)], bulge_pos = [(0, 0, 0)], time = 1 / 2\<rparr>]"
proof -
  have a: "Header_Time (scenario_file 0) = Some 0 \<and> groups_complete (scenario_file 0)"
    by (simp add: example_eval groups_complete_def group_complete_def)
  have b: "PartType4 (scenario_file 0) = None \<and> PartType3 (scenario_file 0) = None"
    by (simp add: example_eval)
  from empty_class_robust
      [of "scenario_file 0" 0 30 20
        "[scenario_snapshot 0,
      \<lparr>newstars_pos = [(0, 2, 0)], newstars_mass = [1], newstars_time = [1 / 4],
       disk_pos = [(3, 1, 0), (- 2, 0, 1)], bulge_pos = [(0, 0, 0)], time = 1 / 2\<rparr>]"] a b
  show ?thesis by auto
qed

text \<open>
  The claim as worded fails on a file in which the newly formed stars are absent and the
  time attribute is missing: the reader raises and returns no position set at all.
\<close>

theorem empty_class_counterexample:
  "PartType4
     \<lparr>Header_Time = None,
      PartType2 = Some \<lparr>Coordinates = Some [(2, 0, 0)], Masses = None,
                         StellarFormationTime = None\<rparr>,
      PartType3 = None, PartType4 = None\<rparr> = None
   \<and> load_snapshot
     \<lparr>Header_Time = None,
      PartType2 = Some \<lparr>Coordinates = Some [(2, 0, 0)], Masses = None,
                         StellarFormationTime = None\<rparr>,
      PartType3 = None, PartType4 = None\<rparr> = Inl KeyError"
  by (simp add: load_snapshot_def dataset_def)

end
